theory Spec2Isabelle
  imports Complex_Main
begin

section \<open>Numeric values of a pandas Series\<close>

text \<open>
  Every column of the data frames in \<^verbatim>\<open>technical_indicators.py\<close> is a pandas Series of
  floats. A float is modelled as an exact real, or one of the three special values the
  program meets: the two infinities and NaN (pandas' marker for a missing value).
  Rounding and overflow of the 64-bit format are not modelled, and zero carries no sign.
  The arithmetic on the special values follows IEEE 754, which is what numpy applies
  elementwise (a division by zero gives an infinity or NaN and is not an exception).
\<close>

datatype fval = Fin real | PInf | NInf | NaN

datatype error = ValueError | IndexError | KeyError

fun fneg :: "fval \<Rightarrow> fval" where
  "fneg (Fin a) = Fin (- a)"
| "fneg PInf = NInf"
| "fneg NInf = PInf"
| "fneg NaN = NaN"

fun fadd :: "fval \<Rightarrow> fval \<Rightarrow> fval" where
  "fadd (Fin a) (Fin b) = Fin (a + b)"
| "fadd NaN _ = NaN"
| "fadd _ NaN = NaN"
| "fadd PInf NInf = NaN"
| "fadd NInf PInf = NaN"
| "fadd PInf _ = PInf"
| "fadd _ PInf = PInf"
| "fadd NInf _ = NInf"
| "fadd _ NInf = NInf"

definition fsub :: "fval \<Rightarrow> fval \<Rightarrow> fval" where
  "fsub a b = fadd a (fneg b)"

fun fmul :: "fval \<Rightarrow> fval \<Rightarrow> fval" where
  "fmul (Fin a) (Fin b) = Fin (a * b)"
| "fmul NaN _ = NaN"
| "fmul _ NaN = NaN"
| "fmul (Fin a) PInf = (if a = 0 then NaN else if 0 < a then PInf else NInf)"
| "fmul (Fin a) NInf = (if a = 0 then NaN else if 0 < a then NInf else PInf)"
| "fmul PInf (Fin b) = (if b = 0 then NaN else if 0 < b then PInf else NInf)"
| "fmul NInf (Fin b) = (if b = 0 then NaN else if 0 < b then NInf else PInf)"
| "fmul PInf PInf = PInf"
| "fmul NInf NInf = PInf"
| "fmul PInf NInf = NInf"
| "fmul NInf PInf = NInf"

text \<open>
  Division: a finite value divided by zero is an infinity of the sign of the numerator,
  and \<open>0 / 0\<close> is NaN.
\<close>

fun fdiv :: "fval \<Rightarrow> fval \<Rightarrow> fval" where
  "fdiv (Fin a) (Fin b) =
     (if b \<noteq> 0 then Fin (a / b)
      else if 0 < a then PInf else if a < 0 then NInf else NaN)"
| "fdiv NaN _ = NaN"
| "fdiv _ NaN = NaN"
| "fdiv (Fin a) PInf = Fin 0"
| "fdiv (Fin a) NInf = Fin 0"
| "fdiv PInf (Fin b) = (if 0 \<le> b then PInf else NInf)"
| "fdiv NInf (Fin b) = (if 0 \<le> b then NInf else PInf)"
| "fdiv PInf PInf = NaN"
| "fdiv PInf NInf = NaN"
| "fdiv NInf PInf = NaN"
| "fdiv NInf NInf = NaN"

fun fabs :: "fval \<Rightarrow> fval" where
  "fabs (Fin a) = Fin \<bar>a\<bar>"
| "fabs PInf = PInf"
| "fabs NInf = PInf"
| "fabs NaN = NaN"

text \<open>The comparisons \<^verbatim>\<open>>\<close> and \<^verbatim>\<open><\<close>: false as soon as an operand is NaN.\<close>

fun fgt :: "fval \<Rightarrow> fval \<Rightarrow> bool" where
  "fgt (Fin a) (Fin b) = (b < a)"
| "fgt NaN _ = False"
| "fgt _ NaN = False"
| "fgt PInf PInf = False"
| "fgt PInf _ = True"
| "fgt NInf _ = False"
| "fgt (Fin a) PInf = False"
| "fgt (Fin a) NInf = True"

definition flt :: "fval \<Rightarrow> fval \<Rightarrow> bool" where
  "flt a b = fgt b a"

section \<open>The pandas operations the indicators are built from\<close>

text \<open>
  A Series is the list of its values in index order. Two Series of one data frame share
  their index, so arithmetic between them is elementwise; a scalar operand is applied
  to every element.
\<close>

type_synonym series = "fval list"

definition series_sub :: "series \<Rightarrow> series \<Rightarrow> series" where
  "series_sub xs ys = map (\<lambda>(a, b). fsub a b) (zip xs ys)"

definition series_add :: "series \<Rightarrow> series \<Rightarrow> series" where
  "series_add xs ys = map (\<lambda>(a, b). fadd a b) (zip xs ys)"

definition series_div :: "series \<Rightarrow> series \<Rightarrow> series" where
  "series_div xs ys = map (\<lambda>(a, b). fdiv a b) (zip xs ys)"

text \<open>\<^verbatim>\<open>shift()\<close> moves every value one position down; the first position is NaN.\<close>

definition shift :: "series \<Rightarrow> series" where
  "shift xs = (if xs = [] then [] else NaN # butlast xs)"

text \<open>\<^verbatim>\<open>diff()\<close> is the difference to the previous value.\<close>

definition diff :: "series \<Rightarrow> series" where
  "diff xs = series_sub xs (shift xs)"

text \<open>\<^verbatim>\<open>s.where(cond, other)\<close> keeps a value where the condition holds and puts
  \<open>other\<close> elsewhere.\<close>

definition where_else :: "(fval \<Rightarrow> bool) \<Rightarrow> fval \<Rightarrow> series \<Rightarrow> series" where
  "where_else cond other xs = map (\<lambda>v. if cond v then v else other) xs"

text \<open>
  \<^verbatim>\<open>rolling(window, min_periods)\<close>: the window at position \<open>i\<close> holds the values at
  the positions \<open>i - window + 1 .. i\<close> that exist. pandas hands the values to its window
  routines with the infinities replaced by NaN, and a NaN is not an observation. The
  aggregate is NaN when the window has fewer than \<open>min_periods\<close> observations, or none.
  \<open>min_periods\<close> defaults to the window size. pandas raises a ValueError for a negative
  window and for \<open>min_periods\<close> greater than the window.
\<close>

definition window_at :: "nat \<Rightarrow> 'a list \<Rightarrow> nat \<Rightarrow> 'a list" where
  "window_at w xs i = drop (Suc i - w) (take (Suc i) xs)"

fun observations :: "series \<Rightarrow> real list" where
  "observations [] = []"
| "observations (Fin a # xs) = a # observations xs"
| "observations (_ # xs) = observations xs"

definition rolling :: "(real list \<Rightarrow> fval) \<Rightarrow> int \<Rightarrow> int option \<Rightarrow> series \<Rightarrow> error + series" where
  "rolling agg window min_periods xs =
     (if window < 0 then Inl ValueError
      else let minp = (case min_periods of None \<Rightarrow> window | Some m \<Rightarrow> m) in
        if minp < 0 \<or> window < minp then Inl ValueError
        else Inr (map (\<lambda>i. let obs = observations (window_at (nat window) xs i) in
                             if nat minp \<le> length obs \<and> 0 < length obs then agg obs else NaN)
                      [0..<length xs]))"

definition mean :: "real list \<Rightarrow> real" where
  "mean obs = sum_list obs / real (length obs)"

definition rolling_mean :: "int \<Rightarrow> int option \<Rightarrow> series \<Rightarrow> error + series" where
  "rolling_mean = rolling (\<lambda>obs. Fin (mean obs))"

definition rolling_min :: "int \<Rightarrow> int option \<Rightarrow> series \<Rightarrow> error + series" where
  "rolling_min = rolling (\<lambda>obs. Fin (foldr min (tl obs) (hd obs)))"

definition rolling_max :: "int \<Rightarrow> int option \<Rightarrow> series \<Rightarrow> error + series" where
  "rolling_max = rolling (\<lambda>obs. Fin (foldr max (tl obs) (hd obs)))"

text \<open>\<^verbatim>\<open>std()\<close> is the sample standard deviation (one degree of freedom removed), NaN on
  fewer than two observations.\<close>

definition sample_std :: "real list \<Rightarrow> fval" where
  "sample_std obs =
     (if length obs < 2 then NaN
      else Fin (sqrt (sum_list (map (\<lambda>x. (x - mean obs)\<^sup>2) obs) / real (length obs - 1))))"

definition rolling_std :: "int \<Rightarrow> int option \<Rightarrow> series \<Rightarrow> error + series" where
  "rolling_std = rolling sample_std"

text \<open>
  \<^verbatim>\<open>ewm(span, adjust=False).mean()\<close>: pandas raises a ValueError for a span below 1.
  The smoothing factor is \<open>2 / (span + 1)\<close>. The first result is the first value. A
  missing value carries the last result forward and ages its weight by \<open>1 - \<alpha>\<close>; the
  next observation \<open>x\<close> then gives \<open>(w * y + \<alpha> * x) / (w + \<alpha>)\<close> with \<open>w\<close> the aged
  weight of the last result \<open>y\<close>, and resets that weight to 1. As for \<open>rolling\<close>, the
  infinities count as missing.
\<close>

fun prep_values :: "series \<Rightarrow> real option list" where
  "prep_values [] = []"
| "prep_values (Fin a # xs) = Some a # prep_values xs"
| "prep_values (_ # xs) = None # prep_values xs"

fun out_value :: "real option \<Rightarrow> fval" where
  "out_value None = NaN"
| "out_value (Some a) = Fin a"

fun ewm_loop :: "real \<Rightarrow> real option \<Rightarrow> real \<Rightarrow> real option list \<Rightarrow> real option list" where
  "ewm_loop \<alpha> weighted old_wt [] = []"
| "ewm_loop \<alpha> None old_wt (cur # rest) = cur # ewm_loop \<alpha> cur old_wt rest"
| "ewm_loop \<alpha> (Some y) old_wt (None # rest) =
     Some y # ewm_loop \<alpha> (Some y) (old_wt * (1 - \<alpha>)) rest"
| "ewm_loop \<alpha> (Some y) old_wt (Some x # rest) =
     (let w = old_wt * (1 - \<alpha>);
          y' = (if y \<noteq> x then (w * y + \<alpha> * x) / (w + \<alpha>) else y)
      in Some y' # ewm_loop \<alpha> (Some y') 1 rest)"

definition ewm_mean :: "int \<Rightarrow> series \<Rightarrow> error + series" where
  "ewm_mean sp xs =
     (if sp < 1 then Inl ValueError
      else Inr (case prep_values xs of
                  [] \<Rightarrow> []
                | x # rest \<Rightarrow> map out_value (x # ewm_loop (2 / (real_of_int sp + 1)) x 1 rest)))"

text \<open>Sequencing of calls that may raise: the first error is the result.\<close>

definition bind :: "error + 'a \<Rightarrow> ('a \<Rightarrow> error + 'b) \<Rightarrow> error + 'b" where
  "bind m f = (case m of Inl e \<Rightarrow> Inl e | Inr v \<Rightarrow> f v)"

section \<open>The indicator library\<close>

text \<open>
  \<^verbatim>\<open>simple_moving_average\<close>:
  \<^verbatim>\<open>return data.rolling(window=window, min_periods=1).mean()\<close>
\<close>

definition simple_moving_average :: "series \<Rightarrow> int \<Rightarrow> error + series" where
  "simple_moving_average data window = rolling_mean window (Some 1) data"

text \<open>
  \<^verbatim>\<open>exponential_moving_average\<close>:
  \<^verbatim>\<open>return data.ewm(span=window, adjust=False).mean()\<close>
\<close>

definition exponential_moving_average :: "series \<Rightarrow> int \<Rightarrow> error + series" where
  "exponential_moving_average data window = ewm_mean window data"

text \<open>
  \<^verbatim>\<open>relative_strength_index\<close>:
  \<^verbatim>\<open>delta = data.diff()\<close>,
  \<^verbatim>\<open>gain = (delta.where(delta > 0, 0)).rolling(window=window).mean()\<close>,
  \<^verbatim>\<open>loss = (-delta.where(delta < 0, 0)).rolling(window=window).mean()\<close>,
  \<^verbatim>\<open>rs = gain / loss\<close>, \<^verbatim>\<open>rsi = 100 - (100 / (1 + rs))\<close>.
  The two rolling means are the functions \<open>rsi_gain\<close> and \<open>rsi_loss\<close>.
\<close>

definition rsi_gain :: "series \<Rightarrow> int \<Rightarrow> error + series" where
  "rsi_gain data window =
     rolling_mean window None (where_else (\<lambda>d. fgt d (Fin 0)) (Fin 0) (diff data))"

definition rsi_loss :: "series \<Rightarrow> int \<Rightarrow> error + series" where
  "rsi_loss data window =
     rolling_mean window None (map fneg (where_else (\<lambda>d. flt d (Fin 0)) (Fin 0) (diff data)))"

definition rsi_of_rs :: "fval \<Rightarrow> fval" where
  "rsi_of_rs rs = fsub (Fin 100) (fdiv (Fin 100) (fadd (Fin 1) rs))"

definition relative_strength_index :: "series \<Rightarrow> int \<Rightarrow> error + series" where
  "relative_strength_index data window =
     bind (rsi_gain data window) (\<lambda>gain.
     bind (rsi_loss data window) (\<lambda>loss.
       Inr (map rsi_of_rs (series_div gain loss))))"

text \<open>
  \<^verbatim>\<open>macd\<close>:
  \<^verbatim>\<open>macd_line = ema_fast - ema_slow\<close>,
  \<^verbatim>\<open>signal_line = self.exponential_moving_average(macd_line, signal)\<close>,
  \<^verbatim>\<open>histogram = macd_line - signal_line\<close>.
\<close>

definition macd :: "series \<Rightarrow> int \<Rightarrow> int \<Rightarrow> int \<Rightarrow> error + (series \<times> series \<times> series)" where
  "macd data fast slow signal =
     bind (exponential_moving_average data fast) (\<lambda>ema_fast.
     bind (exponential_moving_average data slow) (\<lambda>ema_slow.
       let macd_line = series_sub ema_fast ema_slow in
       bind (exponential_moving_average macd_line signal) (\<lambda>signal_line.
         let histogram = series_sub macd_line signal_line in
         Inr (macd_line, signal_line, histogram))))"

text \<open>
  \<^verbatim>\<open>bollinger_bands\<close>:
  \<^verbatim>\<open>sma = self.simple_moving_average(data, window)\<close>,
  \<^verbatim>\<open>std = data.rolling(window=window).std()\<close>,
  \<^verbatim>\<open>upper_band = sma + (std * num_std)\<close>, \<^verbatim>\<open>lower_band = sma - (std * num_std)\<close>.
\<close>

definition bollinger_bands :: "series \<Rightarrow> int \<Rightarrow> real \<Rightarrow> error + (series \<times> series \<times> series)" where
  "bollinger_bands data window num_std =
     bind (simple_moving_average data window) (\<lambda>sma.
     bind (rolling_std window None data) (\<lambda>std.
       let upper_band = series_add sma (map (\<lambda>s. fmul s (Fin num_std)) std);
           lower_band = series_sub sma (map (\<lambda>s. fmul s (Fin num_std)) std)
       in Inr (upper_band, sma, lower_band)))"

text \<open>
  \<^verbatim>\<open>stochastic_oscillator\<close>:
  \<^verbatim>\<open>lowest_low = low.rolling(window=k_period).min()\<close>,
  \<^verbatim>\<open>highest_high = high.rolling(window=k_period).max()\<close>,
  \<^verbatim>\<open>k_percent = 100 * ((close - lowest_low) / (highest_high - lowest_low))\<close>,
  \<^verbatim>\<open>d_percent = k_percent.rolling(window=d_period).mean()\<close>.
\<close>

definition stochastic_oscillator ::
  "series \<Rightarrow> series \<Rightarrow> series \<Rightarrow> int \<Rightarrow> int \<Rightarrow> error + (series \<times> series)" where
  "stochastic_oscillator high low close k_period d_period =
     bind (rolling_min k_period None low) (\<lambda>lowest_low.
     bind (rolling_max k_period None high) (\<lambda>highest_high.
       let k_percent = map (fmul (Fin 100))
             (series_div (series_sub close lowest_low) (series_sub highest_high lowest_low)) in
       bind (rolling_mean d_period None k_percent) (\<lambda>d_percent.
         Inr (k_percent, d_percent))))"

text \<open>
  \<^verbatim>\<open>williams_r\<close>:
  \<^verbatim>\<open>williams_r = -100 * ((highest_high - close) / (highest_high - lowest_low))\<close>.
\<close>

definition williams_r :: "series \<Rightarrow> series \<Rightarrow> series \<Rightarrow> int \<Rightarrow> error + series" where
  "williams_r high low close period =
     bind (rolling_max period None high) (\<lambda>highest_high.
     bind (rolling_min period None low) (\<lambda>lowest_low.
       Inr (map (fmul (Fin (- 100)))
              (series_div (series_sub highest_high close) (series_sub highest_high lowest_low)))))"

text \<open>
  \<^verbatim>\<open>average_true_range\<close>:
  \<^verbatim>\<open>tr1 = high - low\<close>, \<^verbatim>\<open>tr2 = abs(high - close.shift())\<close>,
  \<^verbatim>\<open>tr3 = abs(low - close.shift())\<close>,
  \<^verbatim>\<open>true_range = pd.concat([tr1, tr2, tr3], axis=1).max(axis=1)\<close>,
  \<^verbatim>\<open>atr = true_range.rolling(window=period).mean()\<close>.
  The maximum of a row skips the NaN values in it (pandas' default) and is NaN only when
  the whole row is.
\<close>

definition fmax :: "fval \<Rightarrow> fval \<Rightarrow> fval" where
  "fmax a b = (if a = NaN then b else if b = NaN then a else if fgt b a then b else a)"

definition true_range :: "series \<Rightarrow> series \<Rightarrow> series \<Rightarrow> series" where
  "true_range high low close =
     (let tr1 = series_sub high low;
          tr2 = map fabs (series_sub high (shift close));
          tr3 = map fabs (series_sub low (shift close))
      in map (\<lambda>(a, b, c). fmax (fmax a b) c) (zip tr1 (zip tr2 tr3)))"

definition average_true_range :: "series \<Rightarrow> series \<Rightarrow> series \<Rightarrow> int \<Rightarrow> error + series" where
  "average_true_range high low close period =
     rolling_mean period None (true_range high low close)"

section \<open>Data frames\<close>

text \<open>
  A data frame is its index (the timestamps, one per row) and its columns in order, each
  a name and a Series over that index. \<^verbatim>\<open>df[c] = s\<close> replaces the column named
  \<open>c\<close> where it stands, or appends it as the last column; \<^verbatim>\<open>df[c]\<close> raises a
  KeyError when no column has that name. pandas builds no frame whose columns differ in
  length from its index, and every Series the pipeline assigns is computed from a column
  of the frame and has its length.
\<close>

record dataframe =
  index :: "int list"
  columns :: "(string \<times> series) list"

definition has_col :: "dataframe \<Rightarrow> string \<Rightarrow> bool" where
  "has_col df c = (c \<in> set (map fst (columns df)))"

definition get_col :: "dataframe \<Rightarrow> string \<Rightarrow> error + series" where
  "get_col df c = (case map_of (columns df) c of None \<Rightarrow> Inl KeyError | Some s \<Rightarrow> Inr s)"

fun assign :: "string \<Rightarrow> series \<Rightarrow> (string \<times> series) list \<Rightarrow> (string \<times> series) list" where
  "assign c s [] = [(c, s)]"
| "assign c s ((k, v) # cols) = (if k = c then (c, s) # cols else (k, v) # assign c s cols)"

definition set_col :: "dataframe \<Rightarrow> string \<Rightarrow> series \<Rightarrow> dataframe" where
  "set_col df c s = df\<lparr>columns := assign c s (columns df)\<rparr>"

text \<open>\<^verbatim>\<open>df[dst] = df[src]\<close>\<close>

definition copy_col :: "dataframe \<Rightarrow> string \<Rightarrow> string \<Rightarrow> error + dataframe" where
  "copy_col df dst src = bind (get_col df src) (\<lambda>s. Inr (set_col df dst s))"

section \<open>The indicator pipeline\<close>

text \<open>
  One pass of the loop \<^verbatim>\<open>for indicator in selected_indicators\<close> of
  \<^verbatim>\<open>calculate_all_indicators\<close>: the chain of \<^verbatim>\<open>if/elif\<close> on the name, with the
  default parameters of the library functions written out where the source leaves them
  out. A name that no branch tests leaves the frame as it is.
\<close>

definition compute_indicator :: "dataframe \<Rightarrow> string \<Rightarrow> error + dataframe" where
  "compute_indicator df indicator =
     (if indicator = ''SMA_20'' then
        bind (get_col df ''close'') (\<lambda>close.
        bind (simple_moving_average close 20) (\<lambda>s. Inr (set_col df ''SMA_20'' s)))
      else if indicator = ''SMA_50'' then
        bind (get_col df ''close'') (\<lambda>close.
        bind (simple_moving_average close 50) (\<lambda>s. Inr (set_col df ''SMA_50'' s)))
      else if indicator = ''EMA_12'' then
        bind (get_col df ''close'') (\<lambda>close.
        bind (exponential_moving_average close 12) (\<lambda>s. Inr (set_col df ''EMA_12'' s)))
      else if indicator = ''EMA_26'' then
        bind (get_col df ''close'') (\<lambda>close.
        bind (exponential_moving_average close 26) (\<lambda>s. Inr (set_col df ''EMA_26'' s)))
      else if indicator = ''RSI'' then
        bind (get_col df ''close'') (\<lambda>close.
        bind (relative_strength_index close 14) (\<lambda>s. Inr (set_col df ''RSI'' s)))
      else if indicator = ''MACD'' then
        bind (get_col df ''close'') (\<lambda>close.
        bind (macd close 12 26 9) (\<lambda>(macd_line, signal_line, histogram).
          Inr (set_col (set_col (set_col df ''MACD'' macd_line)
                 ''MACD_Signal'' signal_line) ''MACD_Histogram'' histogram)))
      else if indicator = ''Bollinger_Bands'' then
        bind (get_col df ''close'') (\<lambda>close.
        bind (bollinger_bands close 20 2) (\<lambda>(upper, middle, lower).
          Inr (set_col (set_col (set_col df ''BB_Upper'' upper)
                 ''BB_Middle'' middle) ''BB_Lower'' lower)))
      else if indicator = ''Stochastic'' then
        bind (get_col df ''high'') (\<lambda>high.
        bind (get_col df ''low'') (\<lambda>low.
        bind (get_col df ''close'') (\<lambda>close.
        bind (stochastic_oscillator high low close 14 3) (\<lambda>(k_percent, d_percent).
          Inr (set_col (set_col df ''Stoch_K'' k_percent) ''Stoch_D'' d_percent)))))
      else if indicator = ''Williams_R'' then
        bind (get_col df ''high'') (\<lambda>high.
        bind (get_col df ''low'') (\<lambda>low.
        bind (get_col df ''close'') (\<lambda>close.
        bind (williams_r high low close 14) (\<lambda>s. Inr (set_col df ''Williams_R'' s)))))
      else if indicator = ''ATR'' then
        bind (get_col df ''high'') (\<lambda>high.
        bind (get_col df ''low'') (\<lambda>low.
        bind (get_col df ''close'') (\<lambda>close.
        bind (average_true_range high low close 14) (\<lambda>s. Inr (set_col df ''ATR'' s)))))
      else Inr df)"

fun compute_selected :: "dataframe \<Rightarrow> string list \<Rightarrow> error + dataframe" where
  "compute_selected df [] = Inr df"
| "compute_selected df (indicator # rest) =
     bind (compute_indicator df indicator) (\<lambda>df'. compute_selected df' rest)"

text \<open>The names the chain tests: the vocabulary of the selection list.\<close>

definition vocabulary :: "string list" where
  "vocabulary = [''SMA_20'', ''SMA_50'', ''EMA_12'', ''EMA_26'', ''RSI'', ''MACD'',
                 ''Bollinger_Bands'', ''Stochastic'', ''Williams_R'', ''ATR'']"

text \<open>
  \<^verbatim>\<open>calculate_all_indicators\<close>: the working copy gets a \<open>close\<close> column from
  \<open>price\<close> when it has none (a ValueError when it has neither), then the \<open>open\<close>,
  \<open>high\<close> and \<open>low\<close> columns it lacks from \<open>close\<close>, then the selected indicators.
\<close>

definition ensure_close :: "dataframe \<Rightarrow> error + dataframe" where
  "ensure_close df =
     (if \<not> has_col df ''close'' then
        (if has_col df ''price'' then copy_col df ''close'' ''price'' else Inl ValueError)
      else Inr df)"

definition fill_from_close :: "string \<Rightarrow> dataframe \<Rightarrow> error + dataframe" where
  "fill_from_close c df = (if \<not> has_col df c then copy_col df c ''close'' else Inr df)"

definition calculate_all_indicators :: "dataframe \<Rightarrow> string list \<Rightarrow> error + dataframe" where
  "calculate_all_indicators df selected_indicators =
     bind (ensure_close df) (\<lambda>df1.
     bind (fill_from_close ''open'' df1) (\<lambda>df2.
     bind (fill_from_close ''high'' df2) (\<lambda>df3.
     bind (fill_from_close ''low'' df3) (\<lambda>result_df.
       compute_selected result_df selected_indicators))))"

section \<open>The trend classifier\<close>

text \<open>
  \<^verbatim>\<open>latest = df.iloc[-1]\<close> is the last row, an IndexError on a frame without rows;
  \<^verbatim>\<open>latest[c]\<close> is the last value of column \<open>c\<close>.
\<close>

definition iloc_last :: "dataframe \<Rightarrow> error + (string \<rightharpoonup> fval)" where
  "iloc_last df =
     (if index df = [] then Inl IndexError
      else Inr (\<lambda>c. map_option last (map_of (columns df) c)))"

definition cell :: "(string \<rightharpoonup> fval) \<Rightarrow> string \<Rightarrow> error + fval" where
  "cell row c = (case row c of None \<Rightarrow> Inl KeyError | Some v \<Rightarrow> Inr v)"

text \<open>
  \<^verbatim>\<open>get_trend_analysis\<close>: three rules on the last row, each behind the test that its
  columns are in the frame; the result is the dictionary \<open>analysis\<close>.
\<close>

definition ma_rule :: "dataframe \<Rightarrow> (string \<rightharpoonup> fval) \<Rightarrow> (string \<rightharpoonup> string) \<Rightarrow> error + (string \<rightharpoonup> string)" where
  "ma_rule df latest analysis =
     (if has_col df ''SMA_20'' \<and> has_col df ''SMA_50'' then
        bind (cell latest ''SMA_20'') (\<lambda>sma20.
        bind (cell latest ''SMA_50'') (\<lambda>sma50.
          if fgt sma20 sma50 then Inr (analysis(''ma_trend'' \<mapsto> ''Bullish''))
          else Inr (analysis(''ma_trend'' \<mapsto> ''Bearish''))))
      else Inr analysis)"

definition rsi_rule :: "dataframe \<Rightarrow> (string \<rightharpoonup> fval) \<Rightarrow> (string \<rightharpoonup> string) \<Rightarrow> error + (string \<rightharpoonup> string)" where
  "rsi_rule df latest analysis =
     (if has_col df ''RSI'' then
        bind (cell latest ''RSI'') (\<lambda>rsi.
          if fgt rsi (Fin 70) then Inr (analysis(''rsi_signal'' \<mapsto> ''Overbought''))
          else if flt rsi (Fin 30) then Inr (analysis(''rsi_signal'' \<mapsto> ''Oversold''))
          else Inr (analysis(''rsi_signal'' \<mapsto> ''Neutral'')))
      else Inr analysis)"

definition macd_rule :: "dataframe \<Rightarrow> (string \<rightharpoonup> fval) \<Rightarrow> (string \<rightharpoonup> string) \<Rightarrow> error + (string \<rightharpoonup> string)" where
  "macd_rule df latest analysis =
     (if has_col df ''MACD'' \<and> has_col df ''MACD_Signal'' then
        bind (cell latest ''MACD'') (\<lambda>m.
        bind (cell latest ''MACD_Signal'') (\<lambda>sig.
          if fgt m sig then Inr (analysis(''macd_signal'' \<mapsto> ''Bullish''))
          else Inr (analysis(''macd_signal'' \<mapsto> ''Bearish''))))
      else Inr analysis)"

definition get_trend_analysis :: "dataframe \<Rightarrow> error + (string \<rightharpoonup> string)" where
  "get_trend_analysis df =
     bind (iloc_last df) (\<lambda>latest.
     bind (ma_rule df latest Map.empty) (\<lambda>a1.
     bind (rsi_rule df latest a1) (\<lambda>a2.
       macd_rule df latest a2)))"

section \<open>Facts about the window operations\<close>

lemma observations_map_Fin: "observations (map Fin xs) = xs"
  by (induction xs) auto

lemma window_at_map: "window_at w (map f xs) i = map f (window_at w xs i)"
  by (simp add: window_at_def drop_map take_map)

lemma length_window_at: "i < length xs \<Longrightarrow> length (window_at w xs i) = Suc i - (Suc i - w)"
  by (auto simp: window_at_def min_def)

lemma window_at_nonempty: "i < length xs \<Longrightarrow> 0 < w \<Longrightarrow> window_at w xs i \<noteq> []"
  by (auto simp: window_at_def)

lemma sum_list_window_at:
  fixes xs :: "real list"
  assumes "i < length xs"
  shows "sum_list (window_at w xs i) = (\<Sum>j = Suc i - w..i. xs ! j)"
proof -
  let ?a = "Suc i - w"
  have len: "length (window_at w xs i) = Suc i - ?a"
    using assms by (rule length_window_at)
  have "sum_list (window_at w xs i) = (\<Sum>k = 0..<Suc i - ?a. window_at w xs i ! k)"
    by (simp add: sum_list_sum_nth len)
  also have "\<dots> = (\<Sum>k = 0..<Suc i - ?a. xs ! (?a + k))"
    using assms by (intro sum.cong) (auto simp: window_at_def)
  also have "\<dots> = (\<Sum>j = ?a..<Suc i. xs ! j)"
    using sum.shift_bounds_nat_ivl [of "\<lambda>j. xs ! j" 0 ?a "Suc i - ?a"]
    by (simp add: add.commute)
  also have "\<dots> = (\<Sum>j = ?a..i. xs ! j)"
    by (simp add: atLeastLessThanSuc_atLeastAtMost)
  finally show ?thesis .
qed

text \<open>On a Series of finite values every value of a window is an observation.\<close>

lemma rolling_finite:
  assumes "0 \<le> m" "m \<le> w"
  shows "rolling agg w (Some m) (map Fin xs) =
     Inr (map (\<lambda>i. if nat m \<le> length (window_at (nat w) xs i) \<and> 0 < length (window_at (nat w) xs i)
                     then agg (window_at (nat w) xs i) else NaN) [0..<length xs])"
  using assms by (simp add: rolling_def window_at_map observations_map_Fin Let_def)

section \<open>Simple moving average\<close>

text \<open>
  Claim C4. For a series of finite prices of length \<open>L\<close> and a window \<open>w\<close> of at least
  one observation, the SMA has length \<open>L\<close>, every position of it is defined, the value at
  a position \<open>i < w - 1\<close> is the mean of the observations \<open>0..i\<close> (so the first value
  is the first price), and the value at a position \<open>i \<ge> w - 1\<close> is the mean of the
  trailing \<open>w\<close> observations. This holds for every such window, and so for every
  \<open>w \<le> L\<close>.
\<close>

theorem sma_partial_windows:
  assumes "1 \<le> w"
  shows "\<exists>ys. simple_moving_average (map Fin xs) w = Inr ys \<and> length ys = length xs \<and>
     (\<forall>i<length xs. ys ! i =
        Fin (if i < nat w - 1 then (\<Sum>j = 0..i. xs ! j) / real (i + 1)
             else (\<Sum>j = i + 1 - nat w..i. xs ! j) / real_of_int w))"
proof -
  let ?ys = "map (\<lambda>i. if nat 1 \<le> length (window_at (nat w) xs i) \<and> 0 < length (window_at (nat w) xs i)
                     then Fin (mean (window_at (nat w) xs i)) else NaN) [0..<length xs]"
  have run: "simple_moving_average (map Fin xs) w = Inr ?ys"
    unfolding simple_moving_average_def rolling_mean_def
    using assms by (intro rolling_finite) auto
  have val: "?ys ! i = Fin (if i < nat w - 1 then (\<Sum>j = 0..i. xs ! j) / real (i + 1)
             else (\<Sum>j = i + 1 - nat w..i. xs ! j) / real_of_int w)" if "i < length xs" for i
  proof (cases "i < nat w - 1")
    case True
    then have z: "Suc i - nat w = 0" by simp
    have "window_at (nat w) xs i \<noteq> []"
      using that assms by (intro window_at_nonempty) auto
    then show ?thesis using that True
      by (simp add: length_window_at sum_list_window_at mean_def z)
  next
    case False
    then have l: "Suc i - (Suc i - nat w) = nat w" using assms by auto
    have "window_at (nat w) xs i \<noteq> []"
      using that assms by (intro window_at_nonempty) auto
    then show ?thesis using that False assms
      by (simp add: length_window_at sum_list_window_at mean_def l)
  qed
  show ?thesis using run val by simp
qed

text \<open>The scenario of the specification: ten closing prices and a window of 3.\<close>

theorem sma_partial_windows_witness:
  "(1::int) \<le> 3 \<and> (\<exists>ys. simple_moving_average (map Fin [100, 102, 101, 105, 110, 108, 107, 112, 115, 113]) 3 = Inr ys
     \<and> length ys = 10 \<and> ys ! 0 = Fin 100 \<and> ys ! 1 = Fin 101 \<and> ys ! 9 = Fin (340 / 3))"
proof -
  obtain ys where r: "simple_moving_average (map Fin [100, 102, 101, 105, 110, 108, 107, 112, 115, 113]) 3 = Inr ys"
    and l: "length ys = length [100, 102, 101, 105, 110, 108, 107, 112, 115, 113::real]"
    and v: "\<forall>i<length [100, 102, 101, 105, 110, 108, 107, 112, 115, 113::real]. ys ! i =
        Fin (if i < nat 3 - 1 then (\<Sum>j = 0..i. [100, 102, 101, 105, 110, 108, 107, 112, 115, 113] ! j) / real (i + 1)
             else (\<Sum>j = i + 1 - nat 3..i. [100, 102, 101, 105, 110, 108, 107, 112, 115, 113] ! j) / real_of_int 3)"
    using sma_partial_windows [of 3 "[100, 102, 101, 105, 110, 108, 107, 112, 115, 113]"] by auto
  have "ys ! 0 = Fin 100" using v by simp
  moreover have "ys ! 1 = Fin 101" using v by (simp add: atLeastAtMost_upt upt_rec)
  moreover have "ys ! 9 = Fin (340 / 3)" using v by (simp add: atLeastAtMost_upt upt_rec)
  ultimately show ?thesis using r l by simp
qed

section \<open>Exponential moving average\<close>

lemma prep_values_map_Fin: "prep_values (map Fin xs) = map Some xs"
  by (induction xs) auto

lemma ewm_step_eq:
  fixes y x \<alpha> :: real
  shows "(if y \<noteq> x then ((1 - \<alpha>) * y + \<alpha> * x) / (1 - \<alpha> + \<alpha>) else y) = \<alpha> * x + (1 - \<alpha>) * y"
  by (simp add: algebra_simps)

lemma ewm_loop_finite:
  "\<exists>zs. ewm_loop \<alpha> (Some y) 1 (map Some xs) = map Some zs \<and> length zs = length xs \<and>
     (\<forall>i<length xs. zs ! i = \<alpha> * xs ! i + (1 - \<alpha>) * (if i = 0 then y else zs ! (i - 1)))"
proof (induction xs arbitrary: y)
  case Nil
  show ?case by simp
next
  case (Cons x xs)
  let ?y' = "\<alpha> * x + (1 - \<alpha>) * y"
  obtain zs where run: "ewm_loop \<alpha> (Some ?y') 1 (map Some xs) = map Some zs"
    and len: "length zs = length xs"
    and rec: "\<forall>i<length xs. zs ! i = \<alpha> * xs ! i + (1 - \<alpha>) * (if i = 0 then ?y' else zs ! (i - 1))"
    using Cons.IH [of ?y'] by blast
  have step: "ewm_loop \<alpha> (Some y) 1 (map Some (x # xs)) = map Some (?y' # zs)"
    using run ewm_step_eq [of y x \<alpha>] by (simp add: Let_def)
  have "(?y' # zs) ! i = \<alpha> * (x # xs) ! i + (1 - \<alpha>) * (if i = 0 then y else (?y' # zs) ! (i - 1))"
    if "i < length (x # xs)" for i
  proof (cases i)
    case 0
    then show ?thesis by simp
  next
    case (Suc j)
    then have "j < length xs" using that by simp
    then show ?thesis using rec Suc by (cases j) auto
  qed
  then show ?case using step len by (intro exI [of _ "?y' # zs"]) simp
qed

text \<open>
  Claim C3. For a non-empty series of finite prices and a span of at least 1, the EMA
  has the length of the input, every position of it is defined, its first value is the
  first price, and every later value is \<open>\<alpha> * close[i] + (1 - \<alpha>) * EMA[i - 1]\<close> with
  \<open>\<alpha> = 2 / (span + 1)\<close>: the recurrence seeded with the first observation, without
  bias adjustment.
\<close>

theorem ema_recurrence:
  assumes "1 \<le> sp" and "xs \<noteq> []"
  shows "\<exists>ys. exponential_moving_average (map Fin xs) sp = Inr (map Fin ys) \<and>
     length ys = length xs \<and> ys ! 0 = xs ! 0 \<and>
     (\<forall>i. 1 \<le> i \<and> i < length xs \<longrightarrow>
        ys ! i = 2 / (real_of_int sp + 1) * xs ! i
                 + (1 - 2 / (real_of_int sp + 1)) * ys ! (i - 1))"
proof -
  let ?\<alpha> = "2 / (real_of_int sp + 1)"
  obtain x rest where xs: "xs = x # rest" using assms(2) by (cases xs) auto
  obtain zs where run: "ewm_loop ?\<alpha> (Some x) 1 (map Some rest) = map Some zs"
    and len: "length zs = length rest"
    and rec: "\<forall>i<length rest. zs ! i = ?\<alpha> * rest ! i + (1 - ?\<alpha>) * (if i = 0 then x else zs ! (i - 1))"
    using ewm_loop_finite [of ?\<alpha> x rest] by blast
  have out: "map out_value (map Some (x # zs)) = map Fin (x # zs)"
    by simp
  have res: "exponential_moving_average (map Fin xs) sp = Inr (map Fin (x # zs))"
    using assms(1) run
    by (simp add: exponential_moving_average_def ewm_mean_def xs prep_values_map_Fin)
  have "(x # zs) ! i = ?\<alpha> * xs ! i + (1 - ?\<alpha>) * (x # zs) ! (i - 1)"
    if "1 \<le> i" "i < length xs" for i
  proof -
    from that(1) obtain j where i: "i = Suc j" by (cases i) auto
    then have "j < length rest" using that(2) xs by simp
    then show ?thesis using rec i xs by (cases j) auto
  qed
  then show ?thesis using res len xs by (intro exI [of _ "x # zs"]) simp
qed

text \<open>The prices 1, 2, 3 with span 3, so \<open>\<alpha> = 1 / 2\<close>.\<close>

theorem ema_recurrence_witness:
  "(1::int) \<le> 3 \<and> [1, 2, 3::real] \<noteq> [] \<and>
   exponential_moving_average (map Fin [1, 2, 3]) 3 = Inr [Fin 1, Fin (3 / 2), Fin (9 / 4)]"
proof -
  obtain ys where r: "exponential_moving_average (map Fin [1, 2, 3]) 3 = Inr (map Fin ys)"
    and l: "length ys = length [1, 2, 3::real]" and z: "ys ! 0 = [1, 2, 3] ! 0"
    and v: "\<forall>i. 1 \<le> i \<and> i < length [1, 2, 3::real] \<longrightarrow>
        ys ! i = 2 / (real_of_int 3 + 1) * [1, 2, 3] ! i + (1 - 2 / (real_of_int 3 + 1)) * ys ! (i - 1)"
    using ema_recurrence [of 3 "[1, 2, 3]"] by auto
  have y0: "ys ! 0 = 1" using z by simp
  have y1: "ys ! 1 = 3 / 2" using v y0 by simp
  have "ys ! 2 = 2 / (real_of_int 3 + 1) * [1, 2, 3] ! 2 + (1 - 2 / (real_of_int 3 + 1)) * ys ! (2 - 1)"
    using v by simp
  then have y2: "ys ! 2 = 9 / 4" using y1 by simp
  have "ys = [ys ! 0, ys ! 1, ys ! 2]"
    using l by (intro nth_equalityI) (auto simp: less_Suc_eq numeral_3_eq_3 numeral_2_eq_2)
  then have "ys = [1, 3 / 2, 9 / 4]" unfolding y0 y1 y2 .
  then show ?thesis using r by simp
qed

section \<open>MACD\<close>

lemma length_prep_values: "length (prep_values xs) = length xs"
  by (induction xs rule: prep_values.induct) auto

lemma length_ewm_loop: "length (ewm_loop \<alpha> weighted old_wt xs) = length xs"
  by (induction \<alpha> weighted old_wt xs rule: ewm_loop.induct) (auto simp: Let_def)

lemma ewm_mean_returns:
  assumes "1 \<le> sp"
  shows "\<exists>ys. ewm_mean sp xs = Inr ys \<and> length ys = length xs"
proof (cases "prep_values xs")
  case Nil
  then have "xs = []" using length_prep_values [of xs] by simp
  then show ?thesis using assms by (simp add: ewm_mean_def)
next
  case (Cons x rest)
  then have "Suc (length rest) = length xs" using length_prep_values [of xs] by simp
  then show ?thesis using assms Cons by (simp add: ewm_mean_def length_ewm_loop)
qed

lemma length_series_sub: "length (series_sub xs ys) = min (length xs) (length ys)"
  by (simp add: series_sub_def)

lemma nth_series_sub:
  "i < length xs \<Longrightarrow> i < length ys \<Longrightarrow> series_sub xs ys ! i = fsub (xs ! i) (ys ! i)"
  by (simp add: series_sub_def)

text \<open>
  Claim C5. For every input series and every triple of spans of at least 1, the three
  outputs of \<^verbatim>\<open>macd\<close> have the length of the input and satisfy at every index:
  the MACD line is the fast EMA minus the slow EMA, the signal line is the EMA of the
  MACD line over the signal span, and the histogram is the MACD line minus the signal
  line, as an identity of the values.
\<close>

theorem macd_identity:
  assumes "1 \<le> fast" and "1 \<le> slow" and "1 \<le> signal"
  shows "\<exists>ema_fast ema_slow macd_line signal_line histogram.
     exponential_moving_average data fast = Inr ema_fast \<and>
     exponential_moving_average data slow = Inr ema_slow \<and>
     exponential_moving_average macd_line signal = Inr signal_line \<and>
     macd data fast slow signal = Inr (macd_line, signal_line, histogram) \<and>
     length macd_line = length data \<and> length signal_line = length data \<and>
     length histogram = length data \<and>
     (\<forall>i<length data. macd_line ! i = fsub (ema_fast ! i) (ema_slow ! i) \<and>
                        histogram ! i = fsub (macd_line ! i) (signal_line ! i))"
proof -
  obtain ema_fast where f: "exponential_moving_average data fast = Inr ema_fast"
    and lf: "length ema_fast = length data"
    using ewm_mean_returns [OF assms(1), of data] by (auto simp: exponential_moving_average_def)
  obtain ema_slow where s: "exponential_moving_average data slow = Inr ema_slow"
    and ls: "length ema_slow = length data"
    using ewm_mean_returns [OF assms(2), of data] by (auto simp: exponential_moving_average_def)
  let ?m = "series_sub ema_fast ema_slow"
  have lm: "length ?m = length data" by (simp add: length_series_sub lf ls)
  obtain signal_line where g: "exponential_moving_average ?m signal = Inr signal_line"
    and lg: "length signal_line = length data"
    using ewm_mean_returns [OF assms(3), of ?m] lm by (auto simp: exponential_moving_average_def)
  let ?h = "series_sub ?m signal_line"
  have run: "macd data fast slow signal = Inr (?m, signal_line, ?h)"
    by (simp add: macd_def bind_def f s g Let_def)
  have lh: "length ?h = length data" using lf ls lg by (simp add: length_series_sub)
  have pt: "\<forall>i<length data. ?m ! i = fsub (ema_fast ! i) (ema_slow ! i) \<and>
                        ?h ! i = fsub (?m ! i) (signal_line ! i)"
    using lf ls lm lg by (simp add: nth_series_sub)
  show ?thesis using f s g run lm lg lh pt by blast
qed

text \<open>The prices 1, 2, 3 with spans 1, 3 and 1.\<close>

theorem macd_identity_witness:
  "(1::int) \<le> 1 \<and> (1::int) \<le> 3 \<and>
   (\<exists>m s h. macd (map Fin [1, 2, 3]) 1 3 1 = Inr (m, s, h) \<and> h ! 2 = fsub (m ! 2) (s ! 2))"
proof -
  have "\<exists>m s h. macd (map Fin [1, 2, 3]) 1 3 1 = Inr (m, s, h) \<and>
      (\<forall>i<length (map Fin [1, 2, 3::real]). h ! i = fsub (m ! i) (s ! i))"
    using macd_identity [of 1 3 1 "map Fin [1, 2, 3]"] by simp blast
  then show ?thesis by auto
qed

section \<open>Average true range\<close>

lemma rolling_finite_default:
  assumes "0 \<le> w"
  shows "rolling agg w None (map Fin xs) =
     Inr (map (\<lambda>i. if nat w \<le> length (window_at (nat w) xs i) \<and> 0 < length (window_at (nat w) xs i)
                     then agg (window_at (nat w) xs i) else NaN) [0..<length xs])"
  using assms by (simp add: rolling_def window_at_map observations_map_Fin Let_def)

lemma rolling_mean_full_windows:
  assumes "1 \<le> w"
  shows "\<exists>ys. rolling_mean w None (map Fin xs) = Inr ys \<and> length ys = length xs \<and>
     (\<forall>i<length xs. ys ! i =
        (if i < nat w - 1 then NaN else Fin ((\<Sum>j = i + 1 - nat w..i. xs ! j) / real_of_int w)))"
proof -
  let ?ys = "map (\<lambda>i. if nat w \<le> length (window_at (nat w) xs i) \<and> 0 < length (window_at (nat w) xs i)
                     then Fin (mean (window_at (nat w) xs i)) else NaN) [0..<length xs]"
  have run: "rolling_mean w None (map Fin xs) = Inr ?ys"
    unfolding rolling_mean_def using assms by (intro rolling_finite_default) auto
  have val: "?ys ! i = (if i < nat w - 1 then NaN else Fin ((\<Sum>j = i + 1 - nat w..i. xs ! j) / real_of_int w))"
    if "i < length xs" for i
  proof (cases "i < nat w - 1")
    case True
    then have "length (window_at (nat w) xs i) < nat w"
      using that by (simp add: length_window_at)
    then show ?thesis using that True by simp
  next
    case False
    then have l: "length (window_at (nat w) xs i) = nat w"
      using that assms by (simp add: length_window_at)
    have "window_at (nat w) xs i \<noteq> []"
      using that assms by (intro window_at_nonempty) auto
    then show ?thesis using that False assms l
      by (simp add: sum_list_window_at mean_def)
  qed
  show ?thesis using run val by simp
qed

lemma length_shift: "length (shift xs) = length xs"
  by (simp add: shift_def)

lemma nth_shift_finite:
  "j < length xs \<Longrightarrow> shift (map Fin xs) ! j = (if j = 0 then NaN else Fin (xs ! (j - 1)))"
  by (cases j) (auto simp: shift_def nth_butlast)

lemma fmax_Fin: "fmax (Fin a) (Fin b) = Fin (max a b)"
  by (simp add: fmax_def max_def)

lemma fmax_NaN_right: "fmax (Fin a) NaN = Fin a"
  by (simp add: fmax_def)

lemma true_range_finite:
  assumes "length high = length close" and "length low = length close"
  shows "true_range (map Fin high) (map Fin low) (map Fin close) =
     map Fin (map (\<lambda>j. if j = 0 then high ! 0 - low ! 0
                        else max (max (high ! j - low ! j) \<bar>high ! j - close ! (j - 1)\<bar>)
                                 \<bar>low ! j - close ! (j - 1)\<bar>) [0..<length close])"
proof (rule nth_equalityI)
  show "length (true_range (map Fin high) (map Fin low) (map Fin close)) =
    length (map Fin (map (\<lambda>j. if j = 0 then high ! 0 - low ! 0
                        else max (max (high ! j - low ! j) \<bar>high ! j - close ! (j - 1)\<bar>)
                                 \<bar>low ! j - close ! (j - 1)\<bar>) [0..<length close]))"
    using assms by (simp add: true_range_def Let_def length_series_sub length_shift)
next
  fix j
  assume "j < length (true_range (map Fin high) (map Fin low) (map Fin close))"
  then have j: "j < length close"
    using assms by (simp add: true_range_def Let_def length_series_sub length_shift)
  have s: "shift (map Fin close) ! j = (if j = 0 then NaN else Fin (close ! (j - 1)))"
    using j by (rule nth_shift_finite)
  show "true_range (map Fin high) (map Fin low) (map Fin close) ! j =
    map Fin (map (\<lambda>j. if j = 0 then high ! 0 - low ! 0
                        else max (max (high ! j - low ! j) \<bar>high ! j - close ! (j - 1)\<bar>)
                                 \<bar>low ! j - close ! (j - 1)\<bar>) [0..<length close]) ! j"
    using j assms s
    by (simp add: true_range_def Let_def length_series_sub length_shift nth_series_sub
        fsub_def fmax_Fin fmax_NaN_right)
qed

text \<open>
  Claim C6 says that the ATR is undefined at every index below the period \<open>p\<close>,
  the first point having no previous close. The row maximum skips the two missing terms
  of the first row, so the true range of the first point is \<open>high - low\<close>, and the ATR
  is defined from index \<open>p - 1\<close>: with \<open>p = 2\<close> and two observations the value at
  index 1 is defined.
\<close>

theorem atr_undefined_prefix_counterexample:
  "average_true_range (map Fin [2, 3]) (map Fin [1, 1]) (map Fin [1, 2]) 2 = Inr [NaN, Fin (3 / 2)]
   \<and> [NaN, Fin (3 / 2)] ! 1 \<noteq> NaN \<and> (1::nat) < 2"
  by (simp add: average_true_range_def true_range_def rolling_mean_def rolling_def
      window_at_def mean_def shift_def series_sub_def fsub_def fmax_def Let_def upt_rec)

text \<open>
  Claim C6, as amended. For finite high, low and close series of one length and a period
  \<open>p\<close> of at least 1, the true range is \<open>high - low\<close> at index 0 and
  \<open>max (high - low, |high - prev_close|, |low - prev_close|)\<close> at every later index;
  the ATR is the rolling mean over \<open>p\<close> of the true range, undefined at every index
  below \<open>p - 1\<close> and defined from index \<open>p - 1\<close> onward.
\<close>

theorem atr_defined_from_full_window:
  assumes "1 \<le> p" and "length high = length close" and "length low = length close"
  shows "\<exists>tr atr. true_range (map Fin high) (map Fin low) (map Fin close) = map Fin tr \<and>
     length tr = length close \<and>
     (\<forall>j<length close. tr ! j =
        (if j = 0 then high ! 0 - low ! 0
         else max (max (high ! j - low ! j) \<bar>high ! j - close ! (j - 1)\<bar>)
                  \<bar>low ! j - close ! (j - 1)\<bar>)) \<and>
     average_true_range (map Fin high) (map Fin low) (map Fin close) p = Inr atr \<and>
     length atr = length close \<and>
     (\<forall>i<length close. atr ! i =
        (if i < nat p - 1 then NaN
         else Fin ((\<Sum>j = i + 1 - nat p..i. tr ! j) / real_of_int p)))"
proof -
  let ?tr = "map (\<lambda>j. if j = 0 then high ! 0 - low ! 0
                        else max (max (high ! j - low ! j) \<bar>high ! j - close ! (j - 1)\<bar>)
                                 \<bar>low ! j - close ! (j - 1)\<bar>) [0..<length close]"
  have tr: "true_range (map Fin high) (map Fin low) (map Fin close) = map Fin ?tr"
    using assms(2,3) by (rule true_range_finite)
  obtain atr where run: "rolling_mean p None (map Fin ?tr) = Inr atr"
    and len: "length atr = length ?tr"
    and val: "\<forall>i<length ?tr. atr ! i =
        (if i < nat p - 1 then NaN else Fin ((\<Sum>j = i + 1 - nat p..i. ?tr ! j) / real_of_int p))"
    using rolling_mean_full_windows [OF assms(1), of ?tr] by blast
  have "average_true_range (map Fin high) (map Fin low) (map Fin close) p = Inr atr"
    using run tr by (simp add: average_true_range_def)
  moreover have "\<forall>j<length close. ?tr ! j =
        (if j = 0 then high ! 0 - low ! 0
         else max (max (high ! j - low ! j) \<bar>high ! j - close ! (j - 1)\<bar>)
                  \<bar>low ! j - close ! (j - 1)\<bar>)" by simp
  moreover have "length ?tr = length close" by simp
  ultimately show ?thesis using tr len val
    by (intro exI [of _ ?tr] exI [of _ atr]) simp
qed

theorem atr_defined_from_full_window_witness:
  "(1::int) \<le> 2 \<and> length [2, 3::real] = length [1, 2::real] \<and> length [1, 1::real] = length [1, 2::real] \<and>
   (\<exists>atr. average_true_range (map Fin [2, 3]) (map Fin [1, 1]) (map Fin [1, 2]) 2 = Inr atr \<and>
      atr ! 0 = NaN \<and> atr ! 1 = Fin (3 / 2))"
proof -
  obtain tr atr where t0: "\<forall>j<length [1, 2::real]. tr ! j =
        (if j = 0 then [2, 3] ! 0 - [1, 1] ! 0
         else max (max ([2, 3] ! j - [1, 1] ! j) \<bar>[2, 3] ! j - [1, 2] ! (j - 1)\<bar>)
                  \<bar>[1, 1] ! j - [1, 2] ! (j - 1)\<bar>)"
    and r: "average_true_range (map Fin [2, 3]) (map Fin [1, 1]) (map Fin [1, 2]) 2 = Inr atr"
    and v: "\<forall>i<length [1, 2::real]. atr ! i =
        (if i < nat 2 - 1 then NaN
         else Fin ((\<Sum>j = i + 1 - nat 2..i. tr ! j) / real_of_int 2))"
    using atr_defined_from_full_window [of 2 "[2, 3]" "[1, 2]" "[1, 1]"] by auto
  have "tr ! 0 = 1" using t0 by simp
  moreover have "tr ! 1 = 2" using t0 by simp
  moreover have "atr ! 0 = NaN" using v by simp
  moreover have "atr ! 1 = Fin ((\<Sum>j = 0..1. tr ! j) / 2)" using v by simp
  ultimately have "atr ! 0 = NaN \<and> atr ! 1 = Fin (3 / 2)"
    by (simp add: atLeastAtMost_upt upt_rec)
  then show ?thesis using r by simp
qed

section \<open>Relative strength index\<close>

text \<open>
  On finite prices the two Series under the rolling means are finite and not negative:
  the gain of a step is the rise of the price or 0, the loss is its fall or 0, and both
  are 0 at the first position, where \<^verbatim>\<open>where\<close> replaces the missing difference.
\<close>

lemma length_diff: "length (diff xs) = length xs"
  by (simp add: diff_def length_series_sub length_shift)

lemma nth_diff_finite:
  assumes "j < length xs"
  shows "diff (map Fin xs) ! j = (if j = 0 then NaN else Fin (xs ! j - xs ! (j - 1)))"
  using assms nth_shift_finite [OF assms]
  by (simp add: diff_def nth_series_sub length_shift fsub_def)

lemma gains_finite:
  "where_else (\<lambda>d. fgt d (Fin 0)) (Fin 0) (diff (map Fin xs)) =
     map Fin (map (\<lambda>j. if j = 0 then 0 else max (xs ! j - xs ! (j - 1)) 0) [0..<length xs])"
  by (rule nth_equalityI) (auto simp: where_else_def length_diff nth_diff_finite max_def)

lemma losses_finite:
  "map fneg (where_else (\<lambda>d. flt d (Fin 0)) (Fin 0) (diff (map Fin xs))) =
     map Fin (map (\<lambda>j. if j = 0 then 0 else max (xs ! (j - 1) - xs ! j) 0) [0..<length xs])"
  by (rule nth_equalityI) (auto simp: where_else_def length_diff nth_diff_finite max_def flt_def)

lemma rsi_of_rs_finite:
  assumes "0 \<le> g" and "0 \<le> l"
  shows "rsi_of_rs (fdiv (Fin g) (Fin l)) =
     (if l \<noteq> 0 then Fin (100 - 100 / (1 + g / l)) else if 0 < g then Fin 100 else NaN)"
proof (cases "l = 0")
  case True
  then show ?thesis using assms by (simp add: rsi_of_rs_def fsub_def)
next
  case False
  then have "0 < 1 + g / l" using assms by (simp add: add_pos_nonneg)
  then show ?thesis using False by (simp add: rsi_of_rs_def fsub_def)
qed

lemma rsi_value_range:
  fixes g l :: real
  assumes "0 \<le> g" and "0 < l"
  shows "0 \<le> 100 - 100 / (1 + g / l) \<and> 100 - 100 / (1 + g / l) \<le> 100"
proof -
  have "1 \<le> 1 + g / l" using assms by simp
  then have "100 / (1 + g / l) \<le> 100" "0 \<le> 100 / (1 + g / l)"
    by (simp_all add: divide_le_eq)
  then show ?thesis by simp
qed

lemma nth_series_div:
  "i < length xs \<Longrightarrow> i < length ys \<Longrightarrow> series_div xs ys ! i = fdiv (xs ! i) (ys ! i)"
  by (simp add: series_div_def)

lemma rsi_pointwise:
  assumes "1 \<le> w"
  shows "\<exists>gain loss rsi.
     rsi_gain (map Fin xs) w = Inr gain \<and> rsi_loss (map Fin xs) w = Inr loss \<and>
     relative_strength_index (map Fin xs) w = Inr rsi \<and>
     length gain = length xs \<and> length loss = length xs \<and> length rsi = length xs \<and>
     (\<forall>i<length xs.
        rsi ! i = rsi_of_rs (fdiv (gain ! i) (loss ! i)) \<and>
        gain ! i = (if i < nat w - 1 then NaN
                    else Fin ((\<Sum>j = i + 1 - nat w..i.
                                 if j = 0 then 0 else max (xs ! j - xs ! (j - 1)) 0)
                              / real_of_int w)) \<and>
        loss ! i = (if i < nat w - 1 then NaN
                    else Fin ((\<Sum>j = i + 1 - nat w..i.
                                 if j = 0 then 0 else max (xs ! (j - 1) - xs ! j) 0)
                              / real_of_int w)))"
proof -
  let ?G = "\<lambda>j. if j = 0 then 0 else max (xs ! j - xs ! (j - 1)) 0"
  let ?L = "\<lambda>j. if j = 0 then 0 else max (xs ! (j - 1) - xs ! j) 0"
  let ?gs = "map ?G [0..<length xs]"
  let ?ls = "map ?L [0..<length xs]"
  obtain gain where g: "rolling_mean w None (map Fin ?gs) = Inr gain"
    and lg: "length gain = length ?gs"
    and vg: "\<forall>i<length ?gs. gain ! i =
        (if i < nat w - 1 then NaN else Fin ((\<Sum>j = i + 1 - nat w..i. ?gs ! j) / real_of_int w))"
    using rolling_mean_full_windows [OF assms, of ?gs] by blast
  obtain loss where l: "rolling_mean w None (map Fin ?ls) = Inr loss"
    and ll: "length loss = length ?ls"
    and vl: "\<forall>i<length ?ls. loss ! i =
        (if i < nat w - 1 then NaN else Fin ((\<Sum>j = i + 1 - nat w..i. ?ls ! j) / real_of_int w))"
    using rolling_mean_full_windows [OF assms, of ?ls] by blast
  have rg: "rsi_gain (map Fin xs) w = Inr gain"
    using g by (simp add: rsi_gain_def gains_finite)
  have rl: "rsi_loss (map Fin xs) w = Inr loss"
    using l by (simp add: rsi_loss_def losses_finite)
  let ?rsi = "map rsi_of_rs (series_div gain loss)"
  have run: "relative_strength_index (map Fin xs) w = Inr ?rsi"
    by (simp add: relative_strength_index_def bind_def rg rl)
  have lr: "length ?rsi = length xs" using lg ll by (simp add: series_div_def)
  have pt: "?rsi ! i = rsi_of_rs (fdiv (gain ! i) (loss ! i))" if "i < length xs" for i
    using that lg ll by (simp add: series_div_def)
  have sg: "(\<Sum>j = i + 1 - nat w..i. ?gs ! j) = (\<Sum>j = i + 1 - nat w..i. ?G j)"
    if "i < length xs" for i
    using that by (intro sum.cong) auto
  have sl: "(\<Sum>j = i + 1 - nat w..i. ?ls ! j) = (\<Sum>j = i + 1 - nat w..i. ?L j)"
    if "i < length xs" for i
    using that by (intro sum.cong) auto
  have pg: "gain ! i = (if i < nat w - 1 then NaN
                    else Fin ((\<Sum>j = i + 1 - nat w..i. ?G j) / real_of_int w))"
    if "i < length xs" for i
    using that vg sg [OF that] by simp
  have pl: "loss ! i = (if i < nat w - 1 then NaN
                    else Fin ((\<Sum>j = i + 1 - nat w..i. ?L j) / real_of_int w))"
    if "i < length xs" for i
    using that vl sl [OF that] by simp
  show ?thesis
    using rg rl run lg ll lr pt pg pl
    by (intro exI [of _ gain] exI [of _ loss] exI [of _ ?rsi]) simp
qed

lemma gain_avg_nonneg:
  fixes xs :: "real list"
  assumes "1 \<le> w"
  shows "0 \<le> (\<Sum>j = a..b. if j = 0 then 0 else max (xs ! j - xs ! (j - 1)) 0) / real_of_int w"
  using assms by (intro divide_nonneg_nonneg sum_nonneg) auto

lemma loss_avg_nonneg:
  fixes xs :: "real list"
  assumes "1 \<le> w"
  shows "0 \<le> (\<Sum>j = a..b. if j = 0 then 0 else max (xs ! (j - 1) - xs ! j) 0) / real_of_int w"
  using assms by (intro divide_nonneg_nonneg sum_nonneg) auto

text \<open>
  Claim C2. For every series of finite prices and every window of at least 1, every
  defined RSI value lies between 0 and 100; the RSI is 100 where the trailing average
  loss is 0 and the trailing average gain is positive; and the RSI is undefined, with
  nothing raised, where both averages are 0.
\<close>

theorem rsi_bounded:
  assumes "1 \<le> w"
  shows "\<exists>gain loss rsi.
     rsi_gain (map Fin xs) w = Inr gain \<and> rsi_loss (map Fin xs) w = Inr loss \<and>
     relative_strength_index (map Fin xs) w = Inr rsi \<and> length rsi = length xs \<and>
     (\<forall>i<length xs.
        (rsi ! i = NaN \<or> (\<exists>r. rsi ! i = Fin r \<and> 0 \<le> r \<and> r \<le> 100)) \<and>
        (\<forall>g. gain ! i = Fin g \<and> 0 < g \<and> loss ! i = Fin 0 \<longrightarrow> rsi ! i = Fin 100) \<and>
        (gain ! i = Fin 0 \<and> loss ! i = Fin 0 \<longrightarrow> rsi ! i = NaN))"
proof -
  obtain gain loss rsi where rg: "rsi_gain (map Fin xs) w = Inr gain"
    and rl: "rsi_loss (map Fin xs) w = Inr loss"
    and run: "relative_strength_index (map Fin xs) w = Inr rsi"
    and lr: "length rsi = length xs"
    and pt: "\<forall>i<length xs.
        rsi ! i = rsi_of_rs (fdiv (gain ! i) (loss ! i)) \<and>
        gain ! i = (if i < nat w - 1 then NaN
                    else Fin ((\<Sum>j = i + 1 - nat w..i.
                                 if j = 0 then 0 else max (xs ! j - xs ! (j - 1)) 0)
                              / real_of_int w)) \<and>
        loss ! i = (if i < nat w - 1 then NaN
                    else Fin ((\<Sum>j = i + 1 - nat w..i.
                                 if j = 0 then 0 else max (xs ! (j - 1) - xs ! j) 0)
                              / real_of_int w))"
    using rsi_pointwise [OF assms, of xs] by blast
  have "(rsi ! i = NaN \<or> (\<exists>r. rsi ! i = Fin r \<and> 0 \<le> r \<and> r \<le> 100)) \<and>
        (\<forall>g. gain ! i = Fin g \<and> 0 < g \<and> loss ! i = Fin 0 \<longrightarrow> rsi ! i = Fin 100) \<and>
        (gain ! i = Fin 0 \<and> loss ! i = Fin 0 \<longrightarrow> rsi ! i = NaN)" if "i < length xs" for i
  proof (cases "i < nat w - 1")
    case True
    then have "gain ! i = NaN" "rsi ! i = rsi_of_rs (fdiv (gain ! i) (loss ! i))"
      using pt that by simp_all
    then show ?thesis by (simp add: rsi_of_rs_def fsub_def)
  next
    case False
    define g where "g = (\<Sum>j = i + 1 - nat w..i.
                                 if j = 0 then 0 else max (xs ! j - xs ! (j - 1)) 0)
                              / real_of_int w"
    define l where "l = (\<Sum>j = i + 1 - nat w..i.
                                 if j = 0 then 0 else max (xs ! (j - 1) - xs ! j) 0)
                              / real_of_int w"
    have g0: "0 \<le> g" unfolding g_def using assms by (rule gain_avg_nonneg)
    have l0: "0 \<le> l" unfolding l_def using assms by (rule loss_avg_nonneg)
    have gi: "gain ! i = Fin g" and li: "loss ! i = Fin l"
      using pt that False by (simp_all add: g_def l_def)
    have ri: "rsi ! i = (if l \<noteq> 0 then Fin (100 - 100 / (1 + g / l))
                         else if 0 < g then Fin 100 else NaN)"
      using pt that gi li rsi_of_rs_finite [OF g0 l0] by simp
    show ?thesis
    proof (cases "l = 0")
      case True
      then show ?thesis using ri gi li by auto
    next
      case False
      then have "0 < l" using l0 by simp
      then show ?thesis using ri gi li False rsi_value_range [OF g0, of l] by auto
    qed
  qed
  then show ?thesis using rg rl run lr by blast
qed

text \<open>
  The scenario of the specification: on the flat series of five prices 50 with window 3
  the RSI is undefined at the indices 2, 3 and 4, which have a full window.
\<close>

theorem rsi_bounded_witness:
  "(1::int) \<le> 3 \<and>
   (\<exists>rsi. relative_strength_index (map Fin [50, 50, 50, 50, 50]) 3 = Inr rsi \<and> length rsi = 5 \<and>
      rsi ! 2 = NaN \<and> rsi ! 3 = NaN \<and> rsi ! 4 = NaN)"
proof -
  have g: "rsi_gain (map Fin [50, 50, 50, 50, 50]) 3 = Inr [NaN, NaN, Fin 0, Fin 0, Fin 0]"
    by (simp add: rsi_gain_def rolling_mean_def rolling_def window_at_def diff_def shift_def
        series_sub_def where_else_def fsub_def mean_def upt_rec)
  have l: "rsi_loss (map Fin [50, 50, 50, 50, 50]) 3 = Inr [NaN, NaN, Fin 0, Fin 0, Fin 0]"
    by (simp add: rsi_loss_def rolling_mean_def rolling_def window_at_def diff_def shift_def
        series_sub_def where_else_def fsub_def flt_def mean_def upt_rec)
  obtain rsi where r: "relative_strength_index (map Fin [50, 50, 50, 50, 50]) 3 = Inr rsi"
    and n: "length rsi = length [50, 50, 50, 50, 50::real]"
    and v: "\<forall>i<length [50, 50, 50, 50, 50::real].
        ([NaN, NaN, Fin 0, Fin 0, Fin 0] ! i = Fin 0 \<and> [NaN, NaN, Fin 0, Fin 0, Fin 0] ! i = Fin 0
           \<longrightarrow> rsi ! i = NaN)"
    using rsi_bounded [of 3 "[50, 50, 50, 50, 50]"] g l by auto
  have "rsi ! 2 = NaN" using v by simp
  moreover have "rsi ! 3 = NaN" using v by simp
  moreover have "rsi ! 4 = NaN" using v by simp
  ultimately show ?thesis using r n by simp
qed

section \<open>Division by zero in the oscillators\<close>

lemma rolling_returns:
  assumes "0 \<le> w"
  shows "\<exists>ys. rolling agg w None xs = Inr ys \<and> length ys = length xs"
  using assms by (simp add: rolling_def Let_def)

lemma foldr_min_le_init: "foldr min xs (a::real) \<le> a"
  by (induction xs) (auto simp: min_le_iff_disj)

lemma foldr_min_le_member: "x \<in> set xs \<Longrightarrow> foldr min xs (a::real) \<le> x"
  by (induction xs) (auto simp: min_le_iff_disj)

lemma foldr_max_ge_init: "(a::real) \<le> foldr max xs a"
  by (induction xs) (auto simp: le_max_iff_disj)

lemma foldr_max_ge_member: "x \<in> set xs \<Longrightarrow> (x::real) \<le> foldr max xs a"
  by (induction xs) (auto simp: le_max_iff_disj)

lemma window_min_le_last:
  fixes W :: "real list"
  assumes "W \<noteq> []"
  shows "foldr min (tl W) (hd W) \<le> last W"
proof (cases W)
  case Nil
  then show ?thesis using assms by simp
next
  case (Cons a rest)
  show ?thesis
  proof (cases "rest = []")
    case True
    then show ?thesis using Cons by simp
  next
    case False
    then have "last W \<in> set rest" using Cons by simp
    then show ?thesis using Cons foldr_min_le_member [of "last W" rest a] by simp
  qed
qed

lemma window_max_ge_last:
  fixes W :: "real list"
  assumes "W \<noteq> []"
  shows "last W \<le> foldr max (tl W) (hd W)"
proof (cases W)
  case Nil
  then show ?thesis using assms by simp
next
  case (Cons a rest)
  show ?thesis
  proof (cases "rest = []")
    case True
    then show ?thesis using Cons by simp
  next
    case False
    then have "last W \<in> set rest" using Cons by simp
    then show ?thesis using Cons foldr_max_ge_member [of "last W" rest a] by simp
  qed
qed

lemma last_window_at:
  assumes "i < length xs" and "0 < w"
  shows "last (window_at w xs i) = xs ! i"
proof -
  have ne: "window_at w xs i \<noteq> []" using assms by (rule window_at_nonempty)
  have len: "length (window_at w xs i) = Suc i - (Suc i - w)"
    using assms(1) by (rule length_window_at)
  have "last (window_at w xs i) = window_at w xs i ! (length (window_at w xs i) - 1)"
    using ne by (rule last_conv_nth)
  also have "\<dots> = xs ! i"
    using assms len by (simp add: window_at_def)
  finally show ?thesis .
qed


lemma rolling_min_finite:
  assumes "1 \<le> k"
  shows "\<exists>ll. rolling_min k None (map Fin low) = Inr ll \<and> length ll = length low \<and>
     (\<forall>i<length low. ll ! i = NaN \<or> (\<exists>m. ll ! i = Fin m \<and> m \<le> low ! i))"
proof -
  let ?ll = "map (\<lambda>i. if nat k \<le> length (window_at (nat k) low i) \<and> 0 < length (window_at (nat k) low i)
                     then Fin (foldr min (tl (window_at (nat k) low i)) (hd (window_at (nat k) low i)))
                     else NaN) [0..<length low]"
  have run: "rolling_min k None (map Fin low) = Inr ?ll"
    unfolding rolling_min_def using assms by (intro rolling_finite_default) auto
  have "?ll ! i = NaN \<or> (\<exists>m. ?ll ! i = Fin m \<and> m \<le> low ! i)" if "i < length low" for i
  proof -
    have ne: "window_at (nat k) low i \<noteq> []"
      using that assms by (intro window_at_nonempty) auto
    have "foldr min (tl (window_at (nat k) low i)) (hd (window_at (nat k) low i)) \<le> low ! i"
      using window_min_le_last [OF ne] last_window_at [OF that, of "nat k"] assms by simp
    then show ?thesis using that by simp
  qed
  then show ?thesis using run by (intro exI [of _ ?ll]) simp
qed

lemma rolling_max_finite:
  assumes "1 \<le> k"
  shows "\<exists>hh. rolling_max k None (map Fin high) = Inr hh \<and> length hh = length high \<and>
     (\<forall>i<length high. hh ! i = NaN \<or> (\<exists>m. hh ! i = Fin m \<and> high ! i \<le> m))"
proof -
  let ?hh = "map (\<lambda>i. if nat k \<le> length (window_at (nat k) high i) \<and> 0 < length (window_at (nat k) high i)
                     then Fin (foldr max (tl (window_at (nat k) high i)) (hd (window_at (nat k) high i)))
                     else NaN) [0..<length high]"
  have run: "rolling_max k None (map Fin high) = Inr ?hh"
    unfolding rolling_max_def using assms by (intro rolling_finite_default) auto
  have "?hh ! i = NaN \<or> (\<exists>m. ?hh ! i = Fin m \<and> high ! i \<le> m)" if "i < length high" for i
  proof -
    have ne: "window_at (nat k) high i \<noteq> []"
      using that assms by (intro window_at_nonempty) auto
    have "high ! i \<le> foldr max (tl (window_at (nat k) high i)) (hd (window_at (nat k) high i))"
      using window_max_ge_last [OF ne] last_window_at [OF that, of "nat k"] assms by simp
    then show ?thesis using that by simp
  qed
  then show ?thesis using run by (intro exI [of _ ?hh]) simp
qed

lemma length_series_div: "length (series_div xs ys) = min (length xs) (length ys)"
  by (simp add: series_div_def)

lemma flat_window_quotient:
  "fdiv (fsub (Fin c) (Fin v)) (fsub (Fin v) (Fin v)) =
     (if v < c then PInf else if c < v then NInf else NaN)"
  by (simp add: fsub_def)

lemma flat_window_quotient_high:
  "fdiv (fsub (Fin v) (Fin c)) (fsub (Fin v) (Fin v)) =
     (if c < v then PInf else if v < c then NInf else NaN)"
  by (simp add: fsub_def)

lemma rsi_zero_loss:
  assumes "1 \<le> w"
  shows "\<exists>gain loss rsi.
     rsi_gain (map Fin xs) w = Inr gain \<and> rsi_loss (map Fin xs) w = Inr loss \<and>
     relative_strength_index (map Fin xs) w = Inr rsi \<and>
     (\<forall>i<length xs. loss ! i = Fin 0 \<longrightarrow>
        (\<exists>g. gain ! i = Fin g \<and> 0 \<le> g \<and> rsi ! i = (if 0 < g then Fin 100 else NaN)))"
proof -
  obtain gain loss rsi where rg: "rsi_gain (map Fin xs) w = Inr gain"
    and rl: "rsi_loss (map Fin xs) w = Inr loss"
    and run: "relative_strength_index (map Fin xs) w = Inr rsi"
    and pt: "\<forall>i<length xs.
        rsi ! i = rsi_of_rs (fdiv (gain ! i) (loss ! i)) \<and>
        gain ! i = (if i < nat w - 1 then NaN
                    else Fin ((\<Sum>j = i + 1 - nat w..i.
                                 if j = 0 then 0 else max (xs ! j - xs ! (j - 1)) 0)
                              / real_of_int w)) \<and>
        loss ! i = (if i < nat w - 1 then NaN
                    else Fin ((\<Sum>j = i + 1 - nat w..i.
                                 if j = 0 then 0 else max (xs ! (j - 1) - xs ! j) 0)
                              / real_of_int w))"
    using rsi_pointwise [OF assms, of xs] by blast
  have "\<exists>g. gain ! i = Fin g \<and> 0 \<le> g \<and> rsi ! i = (if 0 < g then Fin 100 else NaN)"
    if "i < length xs" and z: "loss ! i = Fin 0" for i
  proof -
    have full: "\<not> i < nat w - 1" using pt that by auto
    define g where "g = (\<Sum>j = i + 1 - nat w..i.
                                 if j = 0 then 0 else max (xs ! j - xs ! (j - 1)) 0)
                              / real_of_int w"
    have g0: "0 \<le> g" unfolding g_def using assms by (rule gain_avg_nonneg)
    have gi: "gain ! i = Fin g" using pt that full by (simp add: g_def)
    have "rsi ! i = rsi_of_rs (fdiv (Fin g) (Fin 0))" using pt that gi z by simp
    then have "rsi ! i = (if 0 < g then Fin 100 else NaN)"
      using rsi_of_rs_finite [OF g0, of 0] by simp
    then show ?thesis using gi g0 by blast
  qed
  then show ?thesis using rg rl run by blast
qed

lemma stochastic_flat_window:
  assumes "1 \<le> k" and "1 \<le> d"
    and "length high = length close" and "length low = length close"
  shows "\<exists>lowest_low highest_high k_percent d_percent.
     rolling_min k None (map Fin low) = Inr lowest_low \<and>
     rolling_max k None (map Fin high) = Inr highest_high \<and>
     stochastic_oscillator (map Fin high) (map Fin low) (map Fin close) k d
       = Inr (k_percent, d_percent) \<and>
     (\<forall>i<length close. \<forall>v. highest_high ! i = Fin v \<and> lowest_low ! i = Fin v \<longrightarrow>
        k_percent ! i = (if v < close ! i then PInf else if close ! i < v then NInf else NaN) \<and>
        (low ! i \<le> close ! i \<and> close ! i \<le> high ! i \<longrightarrow> k_percent ! i = NaN))"
proof -
  obtain ll where rl: "rolling_min k None (map Fin low) = Inr ll"
    and nl: "length ll = length low"
    and bl: "\<forall>i<length low. ll ! i = NaN \<or> (\<exists>m. ll ! i = Fin m \<and> m \<le> low ! i)"
    using rolling_min_finite [OF assms(1), of low] by blast
  obtain hh where rh: "rolling_max k None (map Fin high) = Inr hh"
    and nh: "length hh = length high"
    and bh: "\<forall>i<length high. hh ! i = NaN \<or> (\<exists>m. hh ! i = Fin m \<and> high ! i \<le> m)"
    using rolling_max_finite [OF assms(1), of high] by blast
  let ?kp = "map (fmul (Fin 100))
       (series_div (series_sub (map Fin close) ll) (series_sub hh ll))"
  obtain dp where rd: "rolling_mean d None ?kp = Inr dp"
    using rolling_returns [of d "\<lambda>obs. Fin (mean obs)" ?kp] assms(2)
    by (auto simp: rolling_mean_def)
  have run: "stochastic_oscillator (map Fin high) (map Fin low) (map Fin close) k d = Inr (?kp, dp)"
    by (simp add: stochastic_oscillator_def bind_def rl rh rd Let_def)
  have "?kp ! i = (if v < close ! i then PInf else if close ! i < v then NInf else NaN) \<and>
        (low ! i \<le> close ! i \<and> close ! i \<le> high ! i \<longrightarrow> ?kp ! i = NaN)"
    if "i < length close" and hv: "hh ! i = Fin v" and lv: "ll ! i = Fin v" for i v
  proof -
    have "?kp ! i = fmul (Fin 100) (fdiv (fsub (Fin (close ! i)) (Fin v)) (fsub (Fin v) (Fin v)))"
      using that nl nh assms(3,4)
      by (simp add: nth_series_div nth_series_sub length_series_sub length_series_div)
    then have val: "?kp ! i = (if v < close ! i then PInf else if close ! i < v then NInf else NaN)"
      by (simp add: flat_window_quotient)
    have "v \<le> low ! i" using bl that assms(4) lv by auto
    moreover have "high ! i \<le> v" using bh that assms(3) hv by auto
    ultimately have "low ! i \<le> close ! i \<and> close ! i \<le> high ! i \<longrightarrow> close ! i = v"
      by auto
    then show ?thesis using val by auto
  qed
  then show ?thesis using rl rh run by blast
qed

lemma williams_flat_window:
  assumes "1 \<le> p"
    and "length high = length close" and "length low = length close"
  shows "\<exists>highest_high lowest_low wr.
     rolling_max p None (map Fin high) = Inr highest_high \<and>
     rolling_min p None (map Fin low) = Inr lowest_low \<and>
     williams_r (map Fin high) (map Fin low) (map Fin close) p = Inr wr \<and>
     (\<forall>i<length close. \<forall>v. highest_high ! i = Fin v \<and> lowest_low ! i = Fin v \<longrightarrow>
        wr ! i = (if close ! i < v then NInf else if v < close ! i then PInf else NaN) \<and>
        (low ! i \<le> close ! i \<and> close ! i \<le> high ! i \<longrightarrow> wr ! i = NaN))"
proof -
  obtain ll where rl: "rolling_min p None (map Fin low) = Inr ll"
    and nl: "length ll = length low"
    and bl: "\<forall>i<length low. ll ! i = NaN \<or> (\<exists>m. ll ! i = Fin m \<and> m \<le> low ! i)"
    using rolling_min_finite [OF assms(1), of low] by blast
  obtain hh where rh: "rolling_max p None (map Fin high) = Inr hh"
    and nh: "length hh = length high"
    and bh: "\<forall>i<length high. hh ! i = NaN \<or> (\<exists>m. hh ! i = Fin m \<and> high ! i \<le> m)"
    using rolling_max_finite [OF assms(1), of high] by blast
  let ?wr = "map (fmul (Fin (- 100)))
       (series_div (series_sub hh (map Fin close)) (series_sub hh ll))"
  have run: "williams_r (map Fin high) (map Fin low) (map Fin close) p = Inr ?wr"
    by (simp add: williams_r_def bind_def rl rh)
  have "?wr ! i = (if close ! i < v then NInf else if v < close ! i then PInf else NaN) \<and>
        (low ! i \<le> close ! i \<and> close ! i \<le> high ! i \<longrightarrow> ?wr ! i = NaN)"
    if "i < length close" and hv: "hh ! i = Fin v" and lv: "ll ! i = Fin v" for i v
  proof -
    have "?wr ! i = fmul (Fin (- 100)) (fdiv (fsub (Fin v) (Fin (close ! i))) (fsub (Fin v) (Fin v)))"
      using that nl nh assms(2,3)
      by (simp add: nth_series_div nth_series_sub length_series_sub length_series_div)
    then have val: "?wr ! i = (if close ! i < v then NInf else if v < close ! i then PInf else NaN)"
      by (simp add: flat_window_quotient_high)
    have "v \<le> low ! i" using bl that assms(3) lv by auto
    moreover have "high ! i \<le> v" using bh that assms(2) hv by auto
    ultimately have "low ! i \<le> close ! i \<and> close ! i \<le> high ! i \<longrightarrow> close ! i = v"
      by auto
    then show ?thesis using val by auto
  qed
  then show ?thesis using rl rh run by blast
qed

text \<open>
  Claim C1 says that a zero average loss in the RSI gives an undefined value and never
  a finite number such as 100. On the rising prices 1, 2, 3, 4 with window 3 the average
  loss is 0 at the indices 2 and 3, the quotient is infinite, and the RSI there is 100.
\<close>

theorem rsi_zero_loss_gives_100_counterexample:
  "rsi_loss (map Fin [1, 2, 3, 4]) 3 = Inr [NaN, NaN, Fin 0, Fin 0] \<and>
   relative_strength_index (map Fin [1, 2, 3, 4]) 3 = Inr [NaN, NaN, Fin 100, Fin 100]"
  by (simp add: relative_strength_index_def rsi_gain_def rsi_loss_def bind_def rsi_of_rs_def
      series_div_def rolling_mean_def rolling_def window_at_def diff_def shift_def
      series_sub_def where_else_def fsub_def flt_def mean_def upt_rec)

text \<open>
  Claim C1, as amended. For finite inputs and periods of at least 1 the three functions
  return and raise nothing on a division by zero. In the RSI a zero average loss gives
  100 when the average gain is positive and an undefined value (NaN) when the average
  gain is 0 too. In the stochastic oscillator and in Williams %R, at a point where the
  highest high equals the lowest low of the window, the value is undefined (NaN) when
  the close equals that level, as it does whenever \<open>low \<le> close \<le> high\<close> at that
  point, and infinite otherwise: \<open>%K\<close> is \<open>+\<infinity>\<close> for a close above the level and
  \<open>-\<infinity>\<close> for a close below it, and Williams %R is \<open>+\<infinity>\<close> for a close above the
  level and \<open>-\<infinity>\<close> for a close below it. It is never coerced to zero.
\<close>

theorem division_by_zero_results:
  assumes "1 \<le> w" and "1 \<le> k" and "1 \<le> d" and "1 \<le> p"
    and "length high = length close" and "length low = length close"
  shows "(\<exists>gain loss rsi.
       rsi_gain (map Fin xs) w = Inr gain \<and> rsi_loss (map Fin xs) w = Inr loss \<and>
       relative_strength_index (map Fin xs) w = Inr rsi \<and>
       (\<forall>i<length xs. loss ! i = Fin 0 \<longrightarrow>
          (\<exists>g. gain ! i = Fin g \<and> 0 \<le> g \<and> rsi ! i = (if 0 < g then Fin 100 else NaN)))) \<and>
     (\<exists>lowest_low highest_high k_percent d_percent.
       rolling_min k None (map Fin low) = Inr lowest_low \<and>
       rolling_max k None (map Fin high) = Inr highest_high \<and>
       stochastic_oscillator (map Fin high) (map Fin low) (map Fin close) k d
         = Inr (k_percent, d_percent) \<and>
       (\<forall>i<length close. \<forall>v. highest_high ! i = Fin v \<and> lowest_low ! i = Fin v \<longrightarrow>
          k_percent ! i = (if v < close ! i then PInf else if close ! i < v then NInf else NaN) \<and>
          (low ! i \<le> close ! i \<and> close ! i \<le> high ! i \<longrightarrow> k_percent ! i = NaN))) \<and>
     (\<exists>highest_high lowest_low wr.
       rolling_max p None (map Fin high) = Inr highest_high \<and>
       rolling_min p None (map Fin low) = Inr lowest_low \<and>
       williams_r (map Fin high) (map Fin low) (map Fin close) p = Inr wr \<and>
       (\<forall>i<length close. \<forall>v. highest_high ! i = Fin v \<and> lowest_low ! i = Fin v \<longrightarrow>
          wr ! i = (if close ! i < v then NInf else if v < close ! i then PInf else NaN) \<and>
          (low ! i \<le> close ! i \<and> close ! i \<le> high ! i \<longrightarrow> wr ! i = NaN)))"
proof (intro conjI)
  show "\<exists>gain loss rsi.
       rsi_gain (map Fin xs) w = Inr gain \<and> rsi_loss (map Fin xs) w = Inr loss \<and>
       relative_strength_index (map Fin xs) w = Inr rsi \<and>
       (\<forall>i<length xs. loss ! i = Fin 0 \<longrightarrow>
          (\<exists>g. gain ! i = Fin g \<and> 0 \<le> g \<and> rsi ! i = (if 0 < g then Fin 100 else NaN)))"
    using assms(1) by (rule rsi_zero_loss)
next
  show "\<exists>lowest_low highest_high k_percent d_percent.
       rolling_min k None (map Fin low) = Inr lowest_low \<and>
       rolling_max k None (map Fin high) = Inr highest_high \<and>
       stochastic_oscillator (map Fin high) (map Fin low) (map Fin close) k d
         = Inr (k_percent, d_percent) \<and>
       (\<forall>i<length close. \<forall>v. highest_high ! i = Fin v \<and> lowest_low ! i = Fin v \<longrightarrow>
          k_percent ! i = (if v < close ! i then PInf else if close ! i < v then NInf else NaN) \<and>
          (low ! i \<le> close ! i \<and> close ! i \<le> high ! i \<longrightarrow> k_percent ! i = NaN))"
    using assms(2,3,5,6) by (rule stochastic_flat_window)
next
  show "\<exists>highest_high lowest_low wr.
       rolling_max p None (map Fin high) = Inr highest_high \<and>
       rolling_min p None (map Fin low) = Inr lowest_low \<and>
       williams_r (map Fin high) (map Fin low) (map Fin close) p = Inr wr \<and>
       (\<forall>i<length close. \<forall>v. highest_high ! i = Fin v \<and> lowest_low ! i = Fin v \<longrightarrow>
          wr ! i = (if close ! i < v then NInf else if v < close ! i then PInf else NaN) \<and>
          (low ! i \<le> close ! i \<and> close ! i \<le> high ! i \<longrightarrow> wr ! i = NaN))"
    using assms(4,5,6) by (rule williams_flat_window)
qed

theorem division_by_zero_results_witness:
  "(1::int) \<le> 3 \<and> (1::int) \<le> 1 \<and> length [1, 1::real] = length [2, 1::real] \<and>
   (\<exists>rsi. relative_strength_index (map Fin [1, 2, 3, 4]) 3 = Inr rsi \<and> rsi ! 2 = Fin 100) \<and>
   (\<exists>k_percent d_percent.
      stochastic_oscillator (map Fin [1, 1]) (map Fin [1, 1]) (map Fin [2, 1]) 1 1
        = Inr (k_percent, d_percent) \<and> k_percent ! 0 = PInf \<and> k_percent ! 1 = NaN) \<and>
   (\<exists>wr. williams_r (map Fin [1, 1]) (map Fin [1, 1]) (map Fin [2, 1]) 1 = Inr wr \<and>
      wr ! 0 = PInf \<and> wr ! 1 = NaN)"
proof -
  have g: "rsi_gain (map Fin [1, 2, 3, 4]) 3 = Inr [NaN, NaN, Fin (2 / 3), Fin 1]"
    by (simp add: rsi_gain_def rolling_mean_def rolling_def window_at_def diff_def shift_def
        series_sub_def where_else_def fsub_def mean_def upt_rec)
  have l: "rsi_loss (map Fin [1, 2, 3, 4]) 3 = Inr [NaN, NaN, Fin 0, Fin 0]"
    by (simp add: rsi_loss_def rolling_mean_def rolling_def window_at_def diff_def shift_def
        series_sub_def where_else_def fsub_def flt_def mean_def upt_rec)
  have mn: "rolling_min 1 None (map Fin [1, 1]) = Inr [Fin 1, Fin 1]"
    by (simp add: rolling_min_def rolling_def window_at_def upt_rec)
  have mx: "rolling_max 1 None (map Fin [1, 1]) = Inr [Fin 1, Fin 1]"
    by (simp add: rolling_max_def rolling_def window_at_def upt_rec)
  note all = division_by_zero_results [of 3 1 1 1 "[1, 1]" "[2, 1]" "[1, 1]" "[1, 2, 3, 4]"]
  have h: "(1::int) \<le> 3" "(1::int) \<le> 1" "length [1, 1::real] = length [2, 1::real]"
    by simp_all
  obtain rsi where r: "relative_strength_index (map Fin [1, 2, 3, 4]) 3 = Inr rsi"
    and rv: "\<forall>i<length [1, 2, 3, 4::real]. [NaN, NaN, Fin 0, Fin 0] ! i = Fin 0 \<longrightarrow>
          (\<exists>g. [NaN, NaN, Fin (2 / 3), Fin 1] ! i = Fin g \<and> 0 \<le> g \<and>
               rsi ! i = (if 0 < g then Fin 100 else NaN))"
    using all [OF h(1) h(2) h(2) h(2) h(3) h(3)] g l by auto
  have r2: "rsi ! 2 = Fin 100" using rv [rule_format, of 2] by auto
  obtain kp dp where s: "stochastic_oscillator (map Fin [1, 1]) (map Fin [1, 1]) (map Fin [2, 1]) 1 1
        = Inr (kp, dp)"
    and sv: "\<forall>i<length [2, 1::real]. \<forall>v. [Fin 1, Fin 1] ! i = Fin v \<and> [Fin 1, Fin 1] ! i = Fin v \<longrightarrow>
          kp ! i = (if v < [2, 1] ! i then PInf else if [2, 1] ! i < v then NInf else NaN)"
    using all [OF h(1) h(2) h(2) h(2) h(3) h(3)] mn mx by auto
  have k0: "kp ! 0 = PInf" using sv [rule_format, of 0 1] by simp
  have k1: "kp ! 1 = NaN" using sv [rule_format, of 1 1] by simp
  obtain wr where w: "williams_r (map Fin [1, 1]) (map Fin [1, 1]) (map Fin [2, 1]) 1 = Inr wr"
    and wv: "\<forall>i<length [2, 1::real]. \<forall>v. [Fin 1, Fin 1] ! i = Fin v \<and> [Fin 1, Fin 1] ! i = Fin v \<longrightarrow>
          wr ! i = (if [2, 1] ! i < v then NInf else if v < [2, 1] ! i then PInf else NaN)"
    using all [OF h(1) h(2) h(2) h(2) h(3) h(3)] mn mx by auto
  have w0: "wr ! 0 = PInf" using wv [rule_format, of 0 1] by simp
  have w1: "wr ! 1 = NaN" using wv [rule_format, of 1 1] by simp
  show ?thesis using r r2 s k0 k1 w w0 w1 by simp
qed

section \<open>Trend classifier\<close>

lemma has_col_map_of: "has_col df c \<longleftrightarrow> map_of (columns df) c \<noteq> None"
  by (simp add: has_col_def map_of_eq_None_iff)

lemma cell_Some: "row c = Some v \<Longrightarrow> cell row c = Inr v"
  by (simp add: cell_def)

lemma ma_rule_present:
  assumes "has_col df ''SMA_20''" and "has_col df ''SMA_50''"
    and "latest ''SMA_20'' = Some a" and "latest ''SMA_50'' = Some b"
  shows "ma_rule df latest analysis =
     Inr (analysis(''ma_trend'' \<mapsto> (if fgt a b then ''Bullish'' else ''Bearish'')))"
  using assms by (simp add: ma_rule_def bind_def cell_Some)

lemma ma_rule_absent:
  "\<not> (has_col df ''SMA_20'' \<and> has_col df ''SMA_50'') \<Longrightarrow> ma_rule df latest analysis = Inr analysis"
  by (auto simp: ma_rule_def)

lemma rsi_rule_present:
  assumes "has_col df ''RSI''" and "latest ''RSI'' = Some r"
  shows "rsi_rule df latest analysis =
     Inr (analysis(''rsi_signal'' \<mapsto>
       (if fgt r (Fin 70) then ''Overbought'' else if flt r (Fin 30) then ''Oversold'' else ''Neutral'')))"
  using assms by (simp add: rsi_rule_def bind_def cell_Some)

lemma rsi_rule_absent: "\<not> has_col df ''RSI'' \<Longrightarrow> rsi_rule df latest analysis = Inr analysis"
  by (simp add: rsi_rule_def)

lemma macd_rule_present:
  assumes "has_col df ''MACD''" and "has_col df ''MACD_Signal''"
    and "latest ''MACD'' = Some a" and "latest ''MACD_Signal'' = Some b"
  shows "macd_rule df latest analysis =
     Inr (analysis(''macd_signal'' \<mapsto> (if fgt a b then ''Bullish'' else ''Bearish'')))"
  using assms by (simp add: macd_rule_def bind_def cell_Some)

lemma macd_rule_absent:
  "\<not> (has_col df ''MACD'' \<and> has_col df ''MACD_Signal'') \<Longrightarrow> macd_rule df latest analysis = Inr analysis"
  by (auto simp: macd_rule_def)

lemma iloc_last_rows:
  "index df \<noteq> [] \<Longrightarrow> iloc_last df = Inr (\<lambda>c. map_option last (map_of (columns df) c))"
  by (simp add: iloc_last_def)

text \<open>
  Claim C7. On a frame with at least one row whose last row holds finite values of
  \<open>SMA_20\<close>, \<open>SMA_50\<close>, \<open>RSI\<close>, \<open>MACD\<close> and \<open>MACD_Signal\<close>, the classifier returns a
  summary in which the moving-average trend is Bullish exactly when \<open>SMA_20 > SMA_50\<close>
  and Bearish otherwise (so on equality), the RSI status is Overbought exactly when
  \<open>RSI > 70\<close>, Oversold exactly when \<open>RSI < 30\<close> and Neutral otherwise, and the MACD
  status is Bullish exactly when the MACD line is above the signal line and Bearish
  otherwise. The labels are the capitalised strings of the source, under its keys
  \<open>ma_trend\<close>, \<open>rsi_signal\<close> and \<open>macd_signal\<close>.
\<close>

theorem trend_rules_on_defined_row:
  assumes "index df \<noteq> []"
    and "map_of (columns df) ''SMA_20'' = Some c20" and "last c20 = Fin sma20"
    and "map_of (columns df) ''SMA_50'' = Some c50" and "last c50 = Fin sma50"
    and "map_of (columns df) ''RSI'' = Some cr" and "last cr = Fin rsi"
    and "map_of (columns df) ''MACD'' = Some cm" and "last cm = Fin m"
    and "map_of (columns df) ''MACD_Signal'' = Some cs" and "last cs = Fin sig"
  shows "\<exists>analysis. get_trend_analysis df = Inr analysis \<and>
     analysis ''ma_trend'' = Some (if sma50 < sma20 then ''Bullish'' else ''Bearish'') \<and>
     analysis ''rsi_signal'' =
       Some (if 70 < rsi then ''Overbought'' else if rsi < 30 then ''Oversold'' else ''Neutral'') \<and>
     analysis ''macd_signal'' = Some (if sig < m then ''Bullish'' else ''Bearish'')"
proof -
  let ?latest = "\<lambda>c. map_option last (map_of (columns df) c)"
  have row: "iloc_last df = Inr ?latest" using assms(1) by (rule iloc_last_rows)
  have cols: "has_col df ''SMA_20''" "has_col df ''SMA_50''" "has_col df ''RSI''"
    "has_col df ''MACD''" "has_col df ''MACD_Signal''"
    using assms by (simp_all add: has_col_map_of)
  let ?a1 = "Map.empty(''ma_trend'' \<mapsto> (if fgt (Fin sma20) (Fin sma50) then ''Bullish'' else ''Bearish''))"
  have r1: "ma_rule df ?latest Map.empty = Inr ?a1"
    using cols assms by (intro ma_rule_present) simp_all
  let ?a2 = "?a1(''rsi_signal'' \<mapsto>
       (if fgt (Fin rsi) (Fin 70) then ''Overbought''
        else if flt (Fin rsi) (Fin 30) then ''Oversold'' else ''Neutral''))"
  have r2: "rsi_rule df ?latest ?a1 = Inr ?a2"
    using cols assms by (intro rsi_rule_present) simp_all
  let ?a3 = "?a2(''macd_signal'' \<mapsto> (if fgt (Fin m) (Fin sig) then ''Bullish'' else ''Bearish''))"
  have r3: "macd_rule df ?latest ?a2 = Inr ?a3"
    using cols assms by (intro macd_rule_present) simp_all
  have run: "get_trend_analysis df = Inr ?a3"
    by (simp only: get_trend_analysis_def row r1 r2 r3 bind_def sum.case)
  have "?a3 ''ma_trend'' = Some (if sma50 < sma20 then ''Bullish'' else ''Bearish'')"
    by simp
  moreover have "?a3 ''rsi_signal'' =
       Some (if 70 < rsi then ''Overbought'' else if rsi < 30 then ''Oversold'' else ''Neutral'')"
    by (simp add: flt_def)
  moreover have "?a3 ''macd_signal'' = Some (if sig < m then ''Bullish'' else ''Bearish'')"
    by simp
  ultimately show ?thesis using run by blast
qed

text \<open>
  The scenario of the specification: equal averages are Bearish, an RSI of 70 is Neutral,
  an RSI of 70.0001 is Overbought.
\<close>

theorem trend_rules_on_defined_row_witness:
  "index \<lparr>index = [1], columns = [(''SMA_20'', [Fin 5]), (''SMA_50'', [Fin 5]), (''RSI'', [Fin 70]),
      (''MACD'', [Fin 1]), (''MACD_Signal'', [Fin 0])]\<rparr> \<noteq> [] \<and>
   (\<exists>analysis. get_trend_analysis \<lparr>index = [1], columns = [(''SMA_20'', [Fin 5]), (''SMA_50'', [Fin 5]),
      (''RSI'', [Fin 70]), (''MACD'', [Fin 1]), (''MACD_Signal'', [Fin 0])]\<rparr> = Inr analysis \<and>
      analysis ''ma_trend'' = Some ''Bearish'' \<and> analysis ''rsi_signal'' = Some ''Neutral'' \<and>
      analysis ''macd_signal'' = Some ''Bullish'') \<and>
   (\<exists>analysis. get_trend_analysis \<lparr>index = [1], columns = [(''SMA_20'', [Fin 6]), (''SMA_50'', [Fin 5]),
      (''RSI'', [Fin (700001 / 10000)]), (''MACD'', [Fin 0]), (''MACD_Signal'', [Fin 0])]\<rparr> = Inr analysis \<and>
      analysis ''ma_trend'' = Some ''Bullish'' \<and> analysis ''rsi_signal'' = Some ''Overbought'' \<and>
      analysis ''macd_signal'' = Some ''Bearish'')"
  using trend_rules_on_defined_row [of "\<lparr>index = [1], columns = [(''SMA_20'', [Fin 5]), (''SMA_50'', [Fin 5]),
      (''RSI'', [Fin 70]), (''MACD'', [Fin 1]), (''MACD_Signal'', [Fin 0])]\<rparr>"
      "[Fin 5]" 5 "[Fin 5]" 5 "[Fin 70]" 70 "[Fin 1]" 1 "[Fin 0]" 0]
    trend_rules_on_defined_row [of "\<lparr>index = [1], columns = [(''SMA_20'', [Fin 6]), (''SMA_50'', [Fin 5]),
      (''RSI'', [Fin (700001 / 10000)]), (''MACD'', [Fin 0]), (''MACD_Signal'', [Fin 0])]\<rparr>"
      "[Fin 6]" 6 "[Fin 5]" 5 "[Fin (700001 / 10000)]" "700001 / 10000" "[Fin 0]" 0 "[Fin 0]" 0]
  by simp

lemma fgt_NaN_right: "fgt x NaN = False"
  by (cases x) auto

lemma ma_rule_eq:
  assumes "\<And>c. has_col df c \<Longrightarrow> latest c \<noteq> None"
  shows "ma_rule df latest analysis =
     Inr (if has_col df ''SMA_20'' \<and> has_col df ''SMA_50''
          then analysis(''ma_trend'' \<mapsto>
                 (if fgt (the (latest ''SMA_20'')) (the (latest ''SMA_50''))
                  then ''Bullish'' else ''Bearish''))
          else analysis)"
proof (cases "has_col df ''SMA_20'' \<and> has_col df ''SMA_50''")
  case True
  then obtain a b where "latest ''SMA_20'' = Some a" "latest ''SMA_50'' = Some b"
    using assms by fastforce
  then show ?thesis using True ma_rule_present [of df latest a b analysis] by simp
next
  case False
  then show ?thesis using ma_rule_absent [of df latest analysis] by auto
qed

lemma rsi_rule_eq:
  assumes "\<And>c. has_col df c \<Longrightarrow> latest c \<noteq> None"
  shows "rsi_rule df latest analysis =
     Inr (if has_col df ''RSI''
          then analysis(''rsi_signal'' \<mapsto>
                 (if fgt (the (latest ''RSI'')) (Fin 70) then ''Overbought''
                  else if flt (the (latest ''RSI'')) (Fin 30) then ''Oversold'' else ''Neutral''))
          else analysis)"
proof (cases "has_col df ''RSI''")
  case True
  then obtain r where "latest ''RSI'' = Some r" using assms by fastforce
  then show ?thesis using True rsi_rule_present [of df latest r analysis] by simp
next
  case False
  then show ?thesis using rsi_rule_absent [of df latest analysis] by simp
qed

lemma macd_rule_eq:
  assumes "\<And>c. has_col df c \<Longrightarrow> latest c \<noteq> None"
  shows "macd_rule df latest analysis =
     Inr (if has_col df ''MACD'' \<and> has_col df ''MACD_Signal''
          then analysis(''macd_signal'' \<mapsto>
                 (if fgt (the (latest ''MACD'')) (the (latest ''MACD_Signal''))
                  then ''Bullish'' else ''Bearish''))
          else analysis)"
proof (cases "has_col df ''MACD'' \<and> has_col df ''MACD_Signal''")
  case True
  then obtain a b where "latest ''MACD'' = Some a" "latest ''MACD_Signal'' = Some b"
    using assms by fastforce
  then show ?thesis using True macd_rule_present [of df latest a b analysis] by simp
next
  case False
  then show ?thesis using macd_rule_absent [of df latest analysis] by auto
qed

text \<open>
  Claim C8 says that the classifier never raises and that it omits a signal whose value
  in the last row is undefined. On a frame without rows \<^verbatim>\<open>df.iloc[-1]\<close> raises an
  IndexError, and an undefined RSI in the last row is labelled Neutral, since both
  comparisons with NaN are false.
\<close>

theorem trend_raises_or_labels_undefined_counterexample:
  "get_trend_analysis \<lparr>index = [], columns = [(''RSI'', [])]\<rparr> = Inl IndexError \<and>
   bind (get_trend_analysis \<lparr>index = [1], columns = [(''RSI'', [NaN])]\<rparr>)
     (\<lambda>analysis. Inr (analysis ''rsi_signal'')) = Inr (Some ''Neutral'')"
  by (simp add: get_trend_analysis_def iloc_last_def ma_rule_def rsi_rule_def macd_rule_def
      has_col_def cell_def bind_def flt_def)

text \<open>
  Claim C8, as amended. On every frame with at least one row the classifier returns a
  summary and raises nothing. A signal whose columns are absent from the frame is
  missing from the summary. A signal whose columns are present always gets a label,
  also when a value it needs is undefined in the last row: a comparison with NaN is
  false, so the moving-average trend and the MACD status are then Bearish and the RSI
  status is Neutral.
\<close>

theorem trend_never_omits_present_signal:
  assumes "index df \<noteq> []"
  shows "\<exists>latest analysis. iloc_last df = Inr latest \<and> get_trend_analysis df = Inr analysis \<and>
     (\<not> (has_col df ''SMA_20'' \<and> has_col df ''SMA_50'') \<longrightarrow> analysis ''ma_trend'' = None) \<and>
     (\<not> has_col df ''RSI'' \<longrightarrow> analysis ''rsi_signal'' = None) \<and>
     (\<not> (has_col df ''MACD'' \<and> has_col df ''MACD_Signal'') \<longrightarrow> analysis ''macd_signal'' = None) \<and>
     (has_col df ''SMA_20'' \<and> has_col df ''SMA_50'' \<longrightarrow>
        analysis ''ma_trend'' = Some ''Bullish'' \<or> analysis ''ma_trend'' = Some ''Bearish'') \<and>
     (has_col df ''RSI'' \<longrightarrow>
        analysis ''rsi_signal'' = Some ''Overbought'' \<or> analysis ''rsi_signal'' = Some ''Oversold''
        \<or> analysis ''rsi_signal'' = Some ''Neutral'') \<and>
     (has_col df ''MACD'' \<and> has_col df ''MACD_Signal'' \<longrightarrow>
        analysis ''macd_signal'' = Some ''Bullish'' \<or> analysis ''macd_signal'' = Some ''Bearish'') \<and>
     (has_col df ''SMA_20'' \<and> has_col df ''SMA_50'' \<and>
        (latest ''SMA_20'' = Some NaN \<or> latest ''SMA_50'' = Some NaN) \<longrightarrow>
        analysis ''ma_trend'' = Some ''Bearish'') \<and>
     (has_col df ''RSI'' \<and> latest ''RSI'' = Some NaN \<longrightarrow> analysis ''rsi_signal'' = Some ''Neutral'') \<and>
     (has_col df ''MACD'' \<and> has_col df ''MACD_Signal'' \<and>
        (latest ''MACD'' = Some NaN \<or> latest ''MACD_Signal'' = Some NaN) \<longrightarrow>
        analysis ''macd_signal'' = Some ''Bearish'')"
proof -
  let ?latest = "\<lambda>c. map_option last (map_of (columns df) c)"
  have row: "iloc_last df = Inr ?latest" using assms by (rule iloc_last_rows)
  have val: "\<And>c. has_col df c \<Longrightarrow> ?latest c \<noteq> None"
    by (simp add: has_col_map_of)
  let ?a1 = "if has_col df ''SMA_20'' \<and> has_col df ''SMA_50''
          then Map.empty(''ma_trend'' \<mapsto>
                 (if fgt (the (?latest ''SMA_20'')) (the (?latest ''SMA_50''))
                  then ''Bullish'' else ''Bearish''))
          else Map.empty"
  let ?a2 = "if has_col df ''RSI''
          then ?a1(''rsi_signal'' \<mapsto>
                 (if fgt (the (?latest ''RSI'')) (Fin 70) then ''Overbought''
                  else if flt (the (?latest ''RSI'')) (Fin 30) then ''Oversold'' else ''Neutral''))
          else ?a1"
  let ?a3 = "if has_col df ''MACD'' \<and> has_col df ''MACD_Signal''
          then ?a2(''macd_signal'' \<mapsto>
                 (if fgt (the (?latest ''MACD'')) (the (?latest ''MACD_Signal''))
                  then ''Bullish'' else ''Bearish''))
          else ?a2"
  have r1: "ma_rule df ?latest Map.empty = Inr ?a1" using val by (rule ma_rule_eq)
  have r2: "rsi_rule df ?latest ?a1 = Inr ?a2" using val by (rule rsi_rule_eq)
  have r3: "macd_rule df ?latest ?a2 = Inr ?a3" using val by (rule macd_rule_eq)
  have run: "get_trend_analysis df = Inr ?a3"
    by (simp only: get_trend_analysis_def row r1 r2 r3 bind_def sum.case)
  have c1: "\<not> (has_col df ''SMA_20'' \<and> has_col df ''SMA_50'') \<longrightarrow> ?a3 ''ma_trend'' = None"
    by simp
  have c2: "\<not> has_col df ''RSI'' \<longrightarrow> ?a3 ''rsi_signal'' = None"
    by simp
  have c3: "\<not> (has_col df ''MACD'' \<and> has_col df ''MACD_Signal'') \<longrightarrow> ?a3 ''macd_signal'' = None"
    by simp
  have c4: "has_col df ''SMA_20'' \<and> has_col df ''SMA_50'' \<longrightarrow>
        ?a3 ''ma_trend'' = Some ''Bullish'' \<or> ?a3 ''ma_trend'' = Some ''Bearish''"
    by simp
  have c5: "has_col df ''RSI'' \<longrightarrow>
        ?a3 ''rsi_signal'' = Some ''Overbought'' \<or> ?a3 ''rsi_signal'' = Some ''Oversold''
        \<or> ?a3 ''rsi_signal'' = Some ''Neutral''"
    by simp
  have c6: "has_col df ''MACD'' \<and> has_col df ''MACD_Signal'' \<longrightarrow>
        ?a3 ''macd_signal'' = Some ''Bullish'' \<or> ?a3 ''macd_signal'' = Some ''Bearish''"
    by simp
  have c7: "has_col df ''SMA_20'' \<and> has_col df ''SMA_50'' \<and>
        (?latest ''SMA_20'' = Some NaN \<or> ?latest ''SMA_50'' = Some NaN) \<longrightarrow>
        ?a3 ''ma_trend'' = Some ''Bearish''"
    by (auto simp: fgt_NaN_right)
  have c8: "has_col df ''RSI'' \<and> ?latest ''RSI'' = Some NaN \<longrightarrow> ?a3 ''rsi_signal'' = Some ''Neutral''"
    by (auto simp: flt_def)
  have c9: "has_col df ''MACD'' \<and> has_col df ''MACD_Signal'' \<and>
        (?latest ''MACD'' = Some NaN \<or> ?latest ''MACD_Signal'' = Some NaN) \<longrightarrow>
        ?a3 ''macd_signal'' = Some ''Bearish''"
    by (auto simp: fgt_NaN_right)
  show ?thesis
    using row run c1 c2 c3 c4 c5 c6 c7 c8 c9
    by (intro exI [of _ ?latest] exI [of _ ?a3] conjI)
qed

theorem trend_never_omits_present_signal_witness:
  "index \<lparr>index = [1], columns = [(''RSI'', [NaN])]\<rparr> \<noteq> [] \<and>
   (\<exists>analysis. get_trend_analysis \<lparr>index = [1], columns = [(''RSI'', [NaN])]\<rparr> = Inr analysis \<and>
      analysis ''rsi_signal'' = Some ''Neutral'' \<and> analysis ''ma_trend'' = None \<and>
      analysis ''macd_signal'' = None)"
proof -
  let ?df = "\<lparr>index = [1], columns = [(''RSI'', [NaN])]\<rparr>"
  have h: "index ?df \<noteq> []" by simp
  have c: "has_col ?df ''RSI''" "\<not> has_col ?df ''SMA_20''" "\<not> has_col ?df ''MACD''"
    by (simp_all add: has_col_def)
  have l: "iloc_last ?df = Inr (\<lambda>c. map_option last (map_of (columns ?df) c))"
    using h by (rule iloc_last_rows)
  obtain latest analysis where "iloc_last ?df = Inr latest"
    and "get_trend_analysis ?df = Inr analysis"
    and "\<not> (has_col ?df ''SMA_20'' \<and> has_col ?df ''SMA_50'') \<longrightarrow> analysis ''ma_trend'' = None"
    and "\<not> (has_col ?df ''MACD'' \<and> has_col ?df ''MACD_Signal'') \<longrightarrow> analysis ''macd_signal'' = None"
    and "has_col ?df ''RSI'' \<and> latest ''RSI'' = Some NaN \<longrightarrow> analysis ''rsi_signal'' = Some ''Neutral''"
    using trend_never_omits_present_signal [OF h] by blast
  then show ?thesis using c l by auto
qed

section \<open>Indicator pipeline\<close>

text \<open>
  With their fixed parameters the library functions return on every Series, so a pass of
  the loop returns as soon as the frame has its \<open>close\<close>, \<open>high\<close> and \<open>low\<close> columns.
\<close>

lemma rolling_returns_min_periods:
  assumes "0 \<le> m" and "m \<le> w"
  shows "\<exists>ys. rolling agg w (Some m) xs = Inr ys \<and> length ys = length xs"
  using assms by (simp add: rolling_def Let_def)

lemma simple_moving_average_returns:
  "1 \<le> w \<Longrightarrow> \<exists>ys. simple_moving_average xs w = Inr ys"
  using rolling_returns_min_periods [of 1 w "\<lambda>obs. Fin (mean obs)" xs]
  by (auto simp: simple_moving_average_def rolling_mean_def)

lemma exponential_moving_average_returns:
  "1 \<le> sp \<Longrightarrow> \<exists>ys. exponential_moving_average xs sp = Inr ys"
  using ewm_mean_returns [of sp xs] by (auto simp: exponential_moving_average_def)

lemma relative_strength_index_returns:
  assumes "0 \<le> w"
  shows "\<exists>ys. relative_strength_index xs w = Inr ys"
proof -
  obtain g where "rsi_gain xs w = Inr g"
    using rolling_returns [OF assms] by (auto simp: rsi_gain_def rolling_mean_def)
  moreover obtain l where "rsi_loss xs w = Inr l"
    using rolling_returns [OF assms] by (auto simp: rsi_loss_def rolling_mean_def)
  ultimately show ?thesis by (simp add: relative_strength_index_def bind_def)
qed

lemma macd_returns:
  assumes "1 \<le> fast" and "1 \<le> slow" and "1 \<le> signal"
  shows "\<exists>m s h. macd xs fast slow signal = Inr (m, s, h)"
proof -
  obtain f where f: "exponential_moving_average xs fast = Inr f"
    using exponential_moving_average_returns [OF assms(1)] by blast
  obtain s where s: "exponential_moving_average xs slow = Inr s"
    using exponential_moving_average_returns [OF assms(2)] by blast
  obtain g where g: "exponential_moving_average (series_sub f s) signal = Inr g"
    using exponential_moving_average_returns [OF assms(3)] by blast
  show ?thesis by (simp add: macd_def bind_def f s g Let_def)
qed

lemma bollinger_bands_returns:
  assumes "1 \<le> w"
  shows "\<exists>u m l. bollinger_bands xs w num_std = Inr (u, m, l)"
proof -
  obtain sma where a: "simple_moving_average xs w = Inr sma"
    using simple_moving_average_returns [OF assms] by blast
  obtain std where b: "rolling_std w None xs = Inr std"
    using rolling_returns [of w sample_std xs] assms by (auto simp: rolling_std_def)
  show ?thesis by (simp add: bollinger_bands_def bind_def a b Let_def)
qed

lemma stochastic_oscillator_returns:
  assumes "0 \<le> k" and "0 \<le> d"
  shows "\<exists>kp dp. stochastic_oscillator high low close k d = Inr (kp, dp)"
proof -
  obtain ll where a: "rolling_min k None low = Inr ll"
    using rolling_returns [OF assms(1)] by (auto simp: rolling_min_def)
  obtain hh where b: "rolling_max k None high = Inr hh"
    using rolling_returns [OF assms(1)] by (auto simp: rolling_max_def)
  obtain dp where c: "rolling_mean d None (map (fmul (Fin 100))
        (series_div (series_sub close ll) (series_sub hh ll))) = Inr dp"
    using rolling_returns [OF assms(2)] by (auto simp: rolling_mean_def)
  show ?thesis by (simp add: stochastic_oscillator_def bind_def a b c Let_def)
qed

lemma williams_r_returns:
  assumes "0 \<le> p"
  shows "\<exists>wr. williams_r high low close p = Inr wr"
proof -
  obtain ll where a: "rolling_min p None low = Inr ll"
    using rolling_returns [OF assms] by (auto simp: rolling_min_def)
  obtain hh where b: "rolling_max p None high = Inr hh"
    using rolling_returns [OF assms] by (auto simp: rolling_max_def)
  show ?thesis by (simp add: williams_r_def bind_def a b)
qed

lemma average_true_range_returns:
  "0 \<le> p \<Longrightarrow> \<exists>atr. average_true_range high low close p = Inr atr"
  using rolling_returns [of p] by (auto simp: average_true_range_def rolling_mean_def)

lemma names_assign: "fst ` set (assign c s cols) = insert c (fst ` set cols)"
  by (induction c s cols rule: assign.induct) auto

lemma has_col_set_col: "has_col (set_col df c s) c' \<longleftrightarrow> c' = c \<or> has_col df c'"
  by (auto simp: has_col_def set_col_def names_assign)

lemma get_col_present: "has_col df c \<Longrightarrow> \<exists>s. get_col df c = Inr s"
  by (auto simp: has_col_def get_col_def map_of_eq_None_iff split: option.splits)


lemma bind_assoc: "bind (bind m f) g = bind m (\<lambda>x. bind (f x) g)"
  by (cases m) (simp_all add: bind_def)

lemma compute_indicator_returns:
  assumes "has_col df ''close''" and "has_col df ''high''" and "has_col df ''low''"
  shows "\<exists>df'. compute_indicator df n = Inr df' \<and>
     has_col df' ''close'' \<and> has_col df' ''high'' \<and> has_col df' ''low''"
proof -
  obtain c where c: "get_col df ''close'' = Inr c" using get_col_present [OF assms(1)] by blast
  obtain h where h: "get_col df ''high'' = Inr h" using get_col_present [OF assms(2)] by blast
  obtain l where l: "get_col df ''low'' = Inr l" using get_col_present [OF assms(3)] by blast
  obtain s20 where s20: "simple_moving_average c 20 = Inr s20"
    using simple_moving_average_returns [of 20 c] by auto
  obtain s50 where s50: "simple_moving_average c 50 = Inr s50"
    using simple_moving_average_returns [of 50 c] by auto
  obtain e12 where e12: "exponential_moving_average c 12 = Inr e12"
    using exponential_moving_average_returns [of 12 c] by auto
  obtain e26 where e26: "exponential_moving_average c 26 = Inr e26"
    using exponential_moving_average_returns [of 26 c] by auto
  obtain rsi where rsi: "relative_strength_index c 14 = Inr rsi"
    using relative_strength_index_returns [of 14 c] by auto
  obtain m sg hi where md: "macd c 12 26 9 = Inr (m, sg, hi)"
    using macd_returns [of 12 26 9 c] by auto
  obtain u mi lo where bb: "bollinger_bands c 20 2 = Inr (u, mi, lo)"
    using bollinger_bands_returns [of 20 c 2] by auto
  obtain kp dp where st: "stochastic_oscillator h l c 14 3 = Inr (kp, dp)"
    using stochastic_oscillator_returns [of 14 3 h l c] by auto
  obtain wr where wr: "williams_r h l c 14 = Inr wr"
    using williams_r_returns [of 14 h l c] by auto
  obtain atr where atr: "average_true_range h l c 14 = Inr atr"
    using average_true_range_returns [of 14 h l c] by auto
  show ?thesis
    using assms
    by (simp add: compute_indicator_def bind_def c h l s20 s50 e12 e26 rsi md bb st wr atr
        has_col_set_col)
qed

lemma compute_selected_returns:
  assumes "has_col df ''close''" and "has_col df ''high''" and "has_col df ''low''"
  shows "\<exists>df'. compute_selected df sel = Inr df'"
  using assms
proof (induction sel arbitrary: df)
  case Nil
  show ?case by simp
next
  case (Cons n sel)
  obtain df1 where "compute_indicator df n = Inr df1"
    and "has_col df1 ''close''" and "has_col df1 ''high''" and "has_col df1 ''low''"
    using compute_indicator_returns [OF Cons.prems] by blast
  then show ?case using Cons.IH [of df1] by (simp add: bind_def)
qed

lemma fill_from_close_returns:
  assumes "has_col df ''close''"
  shows "\<exists>df'. fill_from_close c df = Inr df' \<and> has_col df' c \<and>
     (\<forall>c'. has_col df c' \<longrightarrow> has_col df' c')"
proof -
  obtain s where "get_col df ''close'' = Inr s" using get_col_present [OF assms] by blast
  then show ?thesis
    by (simp add: fill_from_close_def copy_col_def bind_def has_col_set_col)
qed

lemma ensure_close_returns:
  assumes "has_col df ''close'' \<or> has_col df ''price''"
  shows "\<exists>df'. ensure_close df = Inr df' \<and> has_col df' ''close''"
proof (cases "has_col df ''close''")
  case True
  then show ?thesis by (simp add: ensure_close_def)
next
  case False
  then have p: "has_col df ''price''" using assms by simp
  obtain s where "get_col df ''price'' = Inr s" using get_col_present [OF p] by blast
  then show ?thesis using False p
    by (simp add: ensure_close_def copy_col_def bind_def has_col_set_col)
qed

lemma ensure_close_raises:
  "\<not> has_col df ''close'' \<Longrightarrow> \<not> has_col df ''price'' \<Longrightarrow> ensure_close df = Inl ValueError"
  by (simp add: ensure_close_def)

lemma pipeline_returns:
  assumes "has_col df ''close'' \<or> has_col df ''price''"
  shows "\<exists>result. calculate_all_indicators df sel = Inr result"
proof -
  obtain df1 where a: "ensure_close df = Inr df1" and c1: "has_col df1 ''close''"
    using ensure_close_returns [OF assms] by blast
  obtain df2 where b: "fill_from_close ''open'' df1 = Inr df2" and c2: "has_col df2 ''close''"
    using fill_from_close_returns [OF c1, of "''open''"] c1 by blast
  obtain df3 where c: "fill_from_close ''high'' df2 = Inr df3"
    and c3: "has_col df3 ''close''" "has_col df3 ''high''"
    using fill_from_close_returns [OF c2, of "''high''"] c2 by blast
  obtain df4 where d: "fill_from_close ''low'' df3 = Inr df4"
    and c4: "has_col df4 ''close''" "has_col df4 ''high''" "has_col df4 ''low''"
    using fill_from_close_returns [OF c3(1), of "''low''"] c3 by blast
  obtain r where "compute_selected df4 sel = Inr r"
    using compute_selected_returns [OF c4] by blast
  then show ?thesis by (simp add: calculate_all_indicators_def bind_def a b c d)
qed

lemma pipeline_raises:
  assumes "\<not> has_col df ''close''" and "\<not> has_col df ''price''"
  shows "calculate_all_indicators df sel = Inl ValueError"
  using ensure_close_raises [OF assms] by (simp add: calculate_all_indicators_def bind_def)

text \<open>
  Claim C9 says that the pipeline raises on an empty series. The only test it makes is
  for the price column: an empty frame that has a \<open>close\<close> column goes through, and the
  result is the frame with the added columns, all empty.
\<close>

theorem pipeline_accepts_empty_series_counterexample:
  "calculate_all_indicators \<lparr>index = [], columns = [(''close'', [])]\<rparr> [''SMA_20''] =
     Inr \<lparr>index = [], columns = [(''close'', []), (''open'', []), (''high'', []), (''low'', []),
       (''SMA_20'', [])]\<rparr>"
  by (simp add: calculate_all_indicators_def ensure_close_def fill_from_close_def copy_col_def
      get_col_def set_col_def has_col_def bind_def compute_indicator_def
      simple_moving_average_def rolling_mean_def rolling_def)

text \<open>
  Claim C9, as amended. The pipeline raises exactly when the frame has neither a
  \<open>close\<close> nor a \<open>price\<close> column; the error is the ValueError raised before any
  indicator is computed, whatever the selection. For every frame that has one of the two
  columns, with or without rows, it raises nothing and returns an augmented frame.
\<close>

theorem pipeline_raises_iff_no_price_column:
  "((\<exists>e. calculate_all_indicators df sel = Inl e) \<longleftrightarrow>
      \<not> has_col df ''close'' \<and> \<not> has_col df ''price'') \<and>
   (\<not> has_col df ''close'' \<and> \<not> has_col df ''price'' \<longrightarrow>
      calculate_all_indicators df sel = Inl ValueError) \<and>
   (has_col df ''close'' \<or> has_col df ''price'' \<longrightarrow>
      (\<exists>result. calculate_all_indicators df sel = Inr result))"
proof (cases "has_col df ''close'' \<or> has_col df ''price''")
  case True
  then obtain result where "calculate_all_indicators df sel = Inr result"
    using pipeline_returns by blast
  then show ?thesis using True by auto
next
  case False
  then have "calculate_all_indicators df sel = Inl ValueError"
    using pipeline_raises by blast
  then show ?thesis using False by auto
qed

theorem pipeline_raises_iff_no_price_column_witness:
  "\<not> has_col \<lparr>index = [1], columns = [(''open'', [Fin 3])]\<rparr> ''close'' \<and>
   \<not> has_col \<lparr>index = [1], columns = [(''open'', [Fin 3])]\<rparr> ''price'' \<and>
   calculate_all_indicators \<lparr>index = [1], columns = [(''open'', [Fin 3])]\<rparr> [''SMA_20''] = Inl ValueError \<and>
   has_col \<lparr>index = [1], columns = [(''price'', [Fin 3])]\<rparr> ''price'' \<and>
   (\<exists>result. calculate_all_indicators \<lparr>index = [1], columns = [(''price'', [Fin 3])]\<rparr> [''SMA_20'']
      = Inr result)"
proof -
  have a: "\<not> has_col \<lparr>index = [1], columns = [(''open'', [Fin 3])]\<rparr> ''close''"
    "\<not> has_col \<lparr>index = [1], columns = [(''open'', [Fin 3])]\<rparr> ''price''"
    "has_col \<lparr>index = [1], columns = [(''price'', [Fin 3])]\<rparr> ''price''"
    by (simp_all add: has_col_def)
  show ?thesis
    using a
      pipeline_raises_iff_no_price_column
        [of "\<lparr>index = [1], columns = [(''open'', [Fin 3])]\<rparr>" "[''SMA_20'']"]
      pipeline_raises_iff_no_price_column
        [of "\<lparr>index = [1], columns = [(''price'', [Fin 3])]\<rparr>" "[''SMA_20'']"]
    by blast
qed

lemma compute_indicator_unknown:
  "n \<notin> set vocabulary \<Longrightarrow> compute_indicator df n = Inr df"
  by (simp add: vocabulary_def compute_indicator_def)

lemma compute_selected_append:
  "compute_selected df (xs @ ys) = bind (compute_selected df xs) (\<lambda>df'. compute_selected df' ys)"
proof (induction xs arbitrary: df)
  case Nil
  show ?case by (simp add: bind_def)
next
  case (Cons x xs)
  show ?case by (simp add: Cons.IH bind_assoc)
qed

lemma compute_selected_unknown:
  assumes "n \<notin> set vocabulary"
  shows "compute_selected df (xs @ n # ys) = compute_selected df (xs @ ys)"
proof -
  have "compute_selected df' (n # ys) = compute_selected df' ys" for df'
    using compute_indicator_unknown [OF assms, of df'] by (simp add: bind_def)
  then show ?thesis by (simp add: compute_selected_append)
qed

text \<open>
  Claim C10. A name outside the vocabulary is ignored: for every frame and every
  selection list, the result for the list with such a name in it is the result for the
  list without it, so the name adds no column and no error; on a frame with a price
  column nothing is raised.
\<close>

theorem unknown_indicator_ignored:
  assumes "n \<notin> set vocabulary"
  shows "calculate_all_indicators df (xs @ n # ys) = calculate_all_indicators df (xs @ ys) \<and>
     (has_col df ''close'' \<or> has_col df ''price'' \<longrightarrow>
        (\<exists>result. calculate_all_indicators df (xs @ n # ys) = Inr result))"
proof -
  have "calculate_all_indicators df (xs @ n # ys) = calculate_all_indicators df (xs @ ys)"
    by (simp add: calculate_all_indicators_def compute_selected_unknown [OF assms])
  then show ?thesis using pipeline_returns [of df "xs @ n # ys"] by blast
qed

text \<open>The scenario of the specification: the name FOO after SMA_20, on one price.\<close>

theorem unknown_indicator_ignored_witness:
  "''FOO'' \<notin> set vocabulary \<and>
   calculate_all_indicators \<lparr>index = [1], columns = [(''price'', [Fin 3])]\<rparr> [''SMA_20'', ''FOO'']
     = calculate_all_indicators \<lparr>index = [1], columns = [(''price'', [Fin 3])]\<rparr> [''SMA_20''] \<and>
   calculate_all_indicators \<lparr>index = [1], columns = [(''price'', [Fin 3])]\<rparr> [''SMA_20''] =
     Inr \<lparr>index = [1], columns = [(''price'', [Fin 3]), (''close'', [Fin 3]), (''open'', [Fin 3]),
       (''high'', [Fin 3]), (''low'', [Fin 3]), (''SMA_20'', [Fin 3])]\<rparr>"
proof -
  have u: "''FOO'' \<notin> set vocabulary" by (simp add: vocabulary_def)
  have e: "calculate_all_indicators \<lparr>index = [1], columns = [(''price'', [Fin 3])]\<rparr> [''SMA_20''] =
     Inr \<lparr>index = [1], columns = [(''price'', [Fin 3]), (''close'', [Fin 3]), (''open'', [Fin 3]),
       (''high'', [Fin 3]), (''low'', [Fin 3]), (''SMA_20'', [Fin 3])]\<rparr>"
    by (simp add: calculate_all_indicators_def ensure_close_def fill_from_close_def copy_col_def
      get_col_def set_col_def has_col_def bind_def compute_indicator_def
      simple_moving_average_def rolling_mean_def rolling_def window_at_def mean_def)
  show ?thesis
    using u e unknown_indicator_ignored [OF u,
        of "\<lparr>index = [1], columns = [(''price'', [Fin 3])]\<rparr>" "[''SMA_20'']" "[]"]
    by simp
qed

end
